theory Spec2Isabelle
  imports Main "HOL-Library.Word" "HOL-Library.Char_ord" "HOL-Library.List_Lexorder"
begin

section \<open>Configuration types (resources/api_gateway/api_gateway.go, lines 11-69)\<close>

text \<open>
  A \<^verbatim>\<open>*lambda.Function\<close> is an externally provisioned handler. The component only reads
  its \<^verbatim>\<open>InvokeArn\<close> and \<^verbatim>\<open>Name\<close> outputs and prints the pointer itself in the deployment
  trigger, so a handler is represented by the address the pointer holds; \<open>None\<close> is the
  nil pointer.
\<close>

type_synonym lambda_fn = nat

text \<open>A \<^verbatim>\<open>float64\<close> is only passed through, never computed with: its 64 bits.\<close>

datatype float64 = Float64 "64 word"

record QuotaConfig =
  Limit :: int
  Period :: string

record ThrottleConfig =
  BurstLimit :: int
  RateLimit :: float64

record UsagePlanConfig =
  Quota :: "QuotaConfig option"
  Throttle :: "ThrottleConfig option"

record CustomDomainConfig =
  DomainName :: string
  CertificateArn :: string
  Route53ZoneId :: string

text \<open>
  A Go map is given by its entries, in the order in which \<^verbatim>\<open>range\<close> yields them; a map
  that can be nil is an optional entry list.
\<close>

record EndpointConfig =
  Path :: string
  Method :: string
  LambdaFunc :: "lambda_fn option"
  Authorization :: string
  ApiKeyRequired :: bool
  RequestParameters :: "(string \<times> bool) list option"
  RequestModels :: "(string \<times> string) list option"

record APIGatewayConfig =
  Name :: string
  Description :: string
  StageName :: string
  EnableCORS :: bool
  AuthorizerFunc :: "lambda_fn option"
  ApiKeyRequired :: bool
  UsagePlanLimit :: "UsagePlanConfig option"
  CustomDomain :: "CustomDomainConfig option"
  Endpoints :: "EndpointConfig list"
  Tags :: "(string \<times> string) list"
  Environment :: string

section \<open>Resource declarations\<close>

text \<open>
  Every \<^verbatim>\<open>apigateway.New...\<close> call registers one declaration with the engine. The handle it
  returns is the position of the declaration in the list of declarations made so far.
  An output of a declared resource, used as an input of a later one, is a reference to it.
\<close>

type_synonym handle = nat

datatype outp =
    ID handle
  | RootResourceId handle
  | HttpMethodOf handle
  | StageNameOf handle
  | DomainNameOf handle
  | InvokeArn lambda_fn
  | FunctionName lambda_fn

datatype sinput =
    Str string
  | Out outp
  | Sprintf string "sinput list"

type_synonym tags = "string \<rightharpoonup> string"

text \<open>One constructor per argument struct, the fields in the order the source sets them.\<close>

datatype args =
    ComponentArgs string
  | RestApiArgs string string "string list" tags
  | AuthorizerArgs outp string string outp string int
  | ResourceArgs outp outp string
  | MethodArgs outp outp string string bool "outp option" "(string \<rightharpoonup> bool) option"
  | IntegrationArgs outp outp sinput string "string option" "outp option" "(string \<times> string) list"
  | PermissionArgs string outp string sinput
  | DeploymentArgs outp "(string \<times> string) list"
  | StageArgs outp outp string tags
  | ApiKeyArgs string tags
  | UsagePlanArgs string "(outp \<times> outp) list" "int \<times> string" "int \<times> float64" tags
  | UsagePlanKeyArgs outp string outp
  | DomainNameArgs string string string tags
  | BasePathMappingArgs outp outp outp

record node =
  rname :: string
  parent :: "handle option"
  nargs :: args

datatype err =
    Failed string
  | NilPointerDereference

record APIGateway =
  RestAPI :: handle
  Deployment :: handle
  Stage :: handle
  APIKey :: "handle option"
  UsagePlan :: "handle option"
  CustomDomain :: "handle option"
  BaseURL :: sinput
  CustomDomainURL :: "sinput option"

text \<open>
  The context: whether the engine accepts a declaration, given the declarations made so
  far, and the region and account the permission's source ARN is built from.
\<close>

record Context =
  provider :: "node list \<Rightarrow> node \<Rightarrow> bool"
  Region :: string
  Account :: string

section \<open>Declaring resources: state and errors\<close>

type_synonym 'a build = "node list \<Rightarrow> (err + 'a) \<times> node list"

definition ret :: "'a \<Rightarrow> 'a build" where
  "ret a log = (Inr a, log)"

definition fail :: "err \<Rightarrow> 'a build" where
  "fail e log = (Inl e, log)"

definition andThen :: "'a build \<Rightarrow> ('a \<Rightarrow> 'b build) \<Rightarrow> 'b build" where
  "andThen m f log =
     (case m log of
        (Inl e, log') \<Rightarrow> (Inl e, log')
      | (Inr a, log') \<Rightarrow> f a log')"

text \<open>
  A creation call: the declaration is appended and its handle returned, or the call
  fails and the source wraps the error with the message of the step.
\<close>

definition create :: "Context \<Rightarrow> node \<Rightarrow> string \<Rightarrow> handle build" where
  "create ctx n msg log =
     (if provider ctx log n then (Inr (length log), log @ [n]) else (Inl (Failed msg), log))"

section \<open>Tag merging (lines 101-108)\<close>

definition mergeTags :: "APIGatewayConfig \<Rightarrow> tags" where
  "mergeTags config =
     fold (\<lambda>(k, v) tags. tags(k \<mapsto> v)) (Tags config)
       [''Environment'' \<mapsto> Environment config, ''ManagedBy'' \<mapsto> ''Pulumi'']"

section \<open>The path tree (lines 139-169 and 359-365)\<close>

text \<open>
  \<^verbatim>\<open>splitPath\<close> as the source has it: the whole path is returned as the only part.
\<close>

definition splitPath :: "string \<Rightarrow> string list" where
  "splitPath path = [path]"

text \<open>
  The inner loop over the path parts. Its state is \<^verbatim>\<open>parentPath\<close>, the current
  \<^verbatim>\<open>resource\<close> id and the \<^verbatim>\<open>resources\<close> memo, keyed by the full path of a node.
\<close>

type_synonym memo = "string \<rightharpoonup> handle"

definition resourceNode :: "string \<Rightarrow> handle \<Rightarrow> handle \<Rightarrow> outp \<Rightarrow> string \<Rightarrow> node" where
  "resourceNode name component restAPI resource pathPart =
     \<lparr>rname = name @ ''-'' @ pathPart, parent = Some component,
      nargs = ResourceArgs (ID restAPI) resource pathPart\<rparr>"

fun buildPath ::
  "Context \<Rightarrow> string \<Rightarrow> handle \<Rightarrow> handle \<Rightarrow> string list \<Rightarrow> string \<times> outp \<times> memo
     \<Rightarrow> (string \<times> outp \<times> memo) build" where
  "buildPath ctx name component restAPI [] st = ret st"
| "buildPath ctx name component restAPI (pathPart # parts) (parentPath, resource, resources) =
     (if pathPart = [] then buildPath ctx name component restAPI parts (parentPath, resource, resources)
      else
        let fullPath = parentPath @ pathPart in
        case resources fullPath of
          Some existing \<Rightarrow>
            buildPath ctx name component restAPI parts (fullPath @ ''/'', ID existing, resources)
        | None \<Rightarrow>
            andThen
              (create ctx (resourceNode name component restAPI resource pathPart)
                 (''failed to create resource for path '' @ fullPath))
              (\<lambda>newResource.
                 buildPath ctx name component restAPI parts
                   (fullPath @ ''/'', ID newResource, resources(fullPath \<mapsto> newResource))))"

section \<open>Endpoint wiring (lines 141-251)\<close>

definition methodNode ::
  "string \<Rightarrow> handle \<Rightarrow> handle \<Rightarrow> handle option \<Rightarrow> EndpointConfig \<Rightarrow> outp \<Rightarrow> node" where
  "methodNode name component restAPI authorizer endpoint resource =
     \<lparr>rname = name @ ''-'' @ Method endpoint @ ''-'' @ Path endpoint, parent = Some component,
      nargs = MethodArgs (ID restAPI) resource (Method endpoint) (Authorization endpoint)
                (EndpointConfig.ApiKeyRequired endpoint)
                (case authorizer of
                   Some a \<Rightarrow> if Authorization endpoint = ''CUSTOM'' then Some (ID a) else None
                 | None \<Rightarrow> None)
                (map_option (\<lambda>ps. fold (\<lambda>(k, v) m. m(k \<mapsto> v)) ps Map.empty)
                   (RequestParameters endpoint))\<rparr>"

definition integrationNode ::
  "string \<Rightarrow> handle \<Rightarrow> handle \<Rightarrow> EndpointConfig \<Rightarrow> outp \<Rightarrow> handle \<Rightarrow> lambda_fn \<Rightarrow> node" where
  "integrationNode name component restAPI endpoint resource method fn =
     \<lparr>rname = name @ ''-'' @ Method endpoint @ ''-'' @ Path endpoint @ ''-integration'',
      parent = Some component,
      nargs = IntegrationArgs (ID restAPI) resource (Out (HttpMethodOf method)) ''AWS_PROXY''
                (Some ''POST'') (Some (InvokeArn fn)) []\<rparr>"

definition permissionNode ::
  "Context \<Rightarrow> string \<Rightarrow> handle \<Rightarrow> handle \<Rightarrow> EndpointConfig \<Rightarrow> lambda_fn \<Rightarrow> node" where
  "permissionNode ctx name component restAPI endpoint fn =
     \<lparr>rname = name @ ''-'' @ Method endpoint @ ''-'' @ Path endpoint @ ''-permission'',
      parent = Some component,
      nargs = PermissionArgs ''lambda:InvokeFunction'' (FunctionName fn)
                ''apigateway.amazonaws.com''
                (Sprintf ''arn:aws:execute-api:%s:%s:%s/*/%s%s''
                   [Str (Region ctx), Str (Account ctx), Out (ID restAPI),
                    Str (Method endpoint), Str (Path endpoint)])\<rparr>"

definition optionsMethodNode ::
  "string \<Rightarrow> handle \<Rightarrow> handle \<Rightarrow> EndpointConfig \<Rightarrow> outp \<Rightarrow> node" where
  "optionsMethodNode name component restAPI endpoint resource =
     \<lparr>rname = name @ ''-'' @ Method endpoint @ ''-'' @ Path endpoint @ ''-options'',
      parent = Some component,
      nargs = MethodArgs (ID restAPI) resource ''OPTIONS'' ''NONE'' False None None\<rparr>"

text \<open>The request template \<^verbatim>\<open>{"statusCode": 200}\<close>; \<open>CHR 0x22\<close> is the double quote.\<close>

definition statusCode200 :: string where
  "statusCode200 = ''{'' @ [CHR 0x22] @ ''statusCode'' @ [CHR 0x22] @ '': 200}''"

definition optionsIntegrationNode ::
  "string \<Rightarrow> handle \<Rightarrow> handle \<Rightarrow> EndpointConfig \<Rightarrow> outp \<Rightarrow> node" where
  "optionsIntegrationNode name component restAPI endpoint resource =
     \<lparr>rname = name @ ''-'' @ Method endpoint @ ''-'' @ Path endpoint @ ''-options-integration'',
      parent = Some component,
      nargs = IntegrationArgs (ID restAPI) resource (Str ''OPTIONS'') ''MOCK'' None None
                [(''application/json'', statusCode200)]\<rparr>"

text \<open>
  One iteration of the loop over the endpoints. Reading \<^verbatim>\<open>endpoint.LambdaFunc.InvokeArn\<close>
  for the integration's arguments panics on a nil handler, after the method is declared.
\<close>

definition wireEndpoint ::
  "Context \<Rightarrow> string \<Rightarrow> APIGatewayConfig \<Rightarrow> handle \<Rightarrow> handle \<Rightarrow> handle option
     \<Rightarrow> EndpointConfig \<Rightarrow> memo \<Rightarrow> memo build" where
  "wireEndpoint ctx name config component restAPI authorizer endpoint resources =
     andThen
       (buildPath ctx name component restAPI (splitPath (Path endpoint))
          (''/'', RootResourceId restAPI, resources))
       (\<lambda>(parentPath, resource, resources').
     andThen
       (create ctx (methodNode name component restAPI authorizer endpoint resource)
          ''failed to create method'')
       (\<lambda>method.
     case LambdaFunc endpoint of
       None \<Rightarrow> fail NilPointerDereference
     | Some fn \<Rightarrow>
     andThen
       (create ctx (integrationNode name component restAPI endpoint resource method fn)
          ''failed to create integration'')
       (\<lambda>integration.
     andThen
       (create ctx (permissionNode ctx name component restAPI endpoint fn)
          ''failed to create lambda permission'')
       (\<lambda>permission.
     if EnableCORS config then
       andThen
         (create ctx (optionsMethodNode name component restAPI endpoint resource)
            ''failed to create OPTIONS method'')
         (\<lambda>optionsMethod.
       andThen
         (create ctx (optionsIntegrationNode name component restAPI endpoint resource)
            ''failed to create OPTIONS integration'')
         (\<lambda>optionsIntegration. ret resources'))
     else ret resources'))))"

fun wireEndpoints ::
  "Context \<Rightarrow> string \<Rightarrow> APIGatewayConfig \<Rightarrow> handle \<Rightarrow> handle \<Rightarrow> handle option
     \<Rightarrow> EndpointConfig list \<Rightarrow> memo \<Rightarrow> memo build" where
  "wireEndpoints ctx name config component restAPI authorizer [] resources = ret resources"
| "wireEndpoints ctx name config component restAPI authorizer (endpoint # endpoints) resources =
     andThen (wireEndpoint ctx name config component restAPI authorizer endpoint resources)
       (wireEndpoints ctx name config component restAPI authorizer endpoints)"

section \<open>The deployment trigger (line 257)\<close>

text \<open>
  \<^verbatim>\<open>fmt.Sprintf("%v", config.Endpoints)\<close>: a slice prints as its elements between brackets,
  a struct as its field values between braces, both separated by single spaces; a string
  prints as it is, a pointer inside a struct as its address in hexadecimal (\<^verbatim>\<open><nil>\<close> when
  nil), a map as \<^verbatim>\<open>map[k:v ...]\<close> with the keys in increasing order.
\<close>

fun joinWith :: "'a list \<Rightarrow> 'a list list \<Rightarrow> 'a list" where
  "joinWith sep [] = []"
| "joinWith sep [x] = x"
| "joinWith sep (x # y # ys) = x @ sep @ joinWith sep (y # ys)"

definition hexDigit :: "nat \<Rightarrow> char" where
  "hexDigit d = ''0123456789abcdef'' ! (d mod 16)"

fun hex :: "nat \<Rightarrow> string" where
  "hex n = (if n < 16 then [hexDigit n] else hex (n div 16) @ [hexDigit (n mod 16)])"

declare hex.simps [simp del]

definition fmtPointer :: "lambda_fn option \<Rightarrow> string" where
  "fmtPointer p =
     (case p of
        None \<Rightarrow> ''<nil>''
      | Some a \<Rightarrow> if a = 0 then ''<nil>'' else ''0x'' @ hex a)"

definition fmtBool :: "bool \<Rightarrow> string" where
  "fmtBool b = (if b then ''true'' else ''false'')"

definition fmtMap :: "('v \<Rightarrow> string) \<Rightarrow> (string \<times> 'v) list option \<Rightarrow> string" where
  "fmtMap fmtValue m =
     ''map['' @
     joinWith '' ''
       (map (\<lambda>(k, v). k @ '':'' @ fmtValue v)
          (sort_key fst (case m of None \<Rightarrow> [] | Some entries \<Rightarrow> entries))) @
     '']''"

definition fmtEndpoint :: "EndpointConfig \<Rightarrow> string" where
  "fmtEndpoint e =
     ''{'' @ Path e @ '' '' @ Method e @ '' '' @ fmtPointer (LambdaFunc e) @ '' '' @
     Authorization e @ '' '' @ fmtBool (EndpointConfig.ApiKeyRequired e) @ '' '' @
     fmtMap fmtBool (RequestParameters e) @ '' '' @ fmtMap id (RequestModels e) @ ''}''"

definition fmtEndpoints :: "EndpointConfig list \<Rightarrow> string" where
  "fmtEndpoints es = ''['' @ joinWith '' '' (map fmtEndpoint es) @ '']''"

section \<open>The component (lines 86-357)\<close>

text \<open>The declarations of the straight-line part, one per creation call.\<close>

definition componentNode :: "string \<Rightarrow> node" where
  "componentNode name =
     \<lparr>rname = name, parent = None, nargs = ComponentArgs ''custom:aws:APIGateway''\<rparr>"

definition restApiNode :: "string \<Rightarrow> APIGatewayConfig \<Rightarrow> tags \<Rightarrow> handle \<Rightarrow> node" where
  "restApiNode name config tags component =
     \<lparr>rname = name, parent = Some component,
      nargs = RestApiArgs (Name config) (Description config) [''EDGE''] tags\<rparr>"

definition authorizerNode :: "string \<Rightarrow> handle \<Rightarrow> handle \<Rightarrow> lambda_fn \<Rightarrow> node" where
  "authorizerNode name component restAPI fn =
     \<lparr>rname = name @ ''-authorizer'', parent = Some component,
      nargs = AuthorizerArgs (ID restAPI) (name @ ''-authorizer'') ''TOKEN''
                (InvokeArn fn) ''method.request.header.Authorization'' 300\<rparr>"

definition deploymentNode :: "string \<Rightarrow> APIGatewayConfig \<Rightarrow> handle \<Rightarrow> handle \<Rightarrow> node" where
  "deploymentNode name config component restAPI =
     \<lparr>rname = name @ ''-deployment'', parent = Some component,
      nargs = DeploymentArgs (ID restAPI)
                [(''redeployment'', fmtEndpoints (Endpoints config))]\<rparr>"

definition stageNode ::
  "string \<Rightarrow> APIGatewayConfig \<Rightarrow> tags \<Rightarrow> handle \<Rightarrow> handle \<Rightarrow> handle \<Rightarrow> node" where
  "stageNode name config tags component restAPI deployment =
     \<lparr>rname = name @ ''-stage'', parent = Some component,
      nargs = StageArgs (ID restAPI) (ID deployment) (StageName config) tags\<rparr>"

definition apiKeyNode :: "string \<Rightarrow> tags \<Rightarrow> handle \<Rightarrow> node" where
  "apiKeyNode name tags component =
     \<lparr>rname = name @ ''-key'', parent = Some component,
      nargs = ApiKeyArgs (name @ ''-key'') tags\<rparr>"

definition usagePlanNode ::
  "string \<Rightarrow> tags \<Rightarrow> handle \<Rightarrow> handle \<Rightarrow> handle \<Rightarrow> QuotaConfig \<Rightarrow> ThrottleConfig \<Rightarrow> node" where
  "usagePlanNode name tags component restAPI stage quota throttle =
     \<lparr>rname = name @ ''-usage-plan'', parent = Some component,
      nargs = UsagePlanArgs (name @ ''-usage-plan'')
                [(ID restAPI, StageNameOf stage)]
                (Limit quota, Period quota)
                (BurstLimit throttle, RateLimit throttle) tags\<rparr>"

definition usagePlanKeyNode :: "string \<Rightarrow> handle \<Rightarrow> handle \<Rightarrow> handle \<Rightarrow> node" where
  "usagePlanKeyNode name component apiKey usagePlan =
     \<lparr>rname = name @ ''-usage-plan-key'', parent = Some component,
      nargs = UsagePlanKeyArgs (ID apiKey) ''API_KEY'' (ID usagePlan)\<rparr>"

definition domainNameNode :: "string \<Rightarrow> tags \<Rightarrow> handle \<Rightarrow> CustomDomainConfig \<Rightarrow> node" where
  "domainNameNode name tags component cd =
     \<lparr>rname = name @ ''-domain'', parent = Some component,
      nargs = DomainNameArgs (DomainName cd) (CertificateArn cd) ''TLS_1_2'' tags\<rparr>"

definition basePathMappingNode :: "string \<Rightarrow> handle \<Rightarrow> handle \<Rightarrow> handle \<Rightarrow> handle \<Rightarrow> node" where
  "basePathMappingNode name component restAPI stage customDomain =
     \<lparr>rname = name @ ''-domain-mapping'', parent = Some component,
      nargs = BasePathMappingArgs (ID restAPI) (StageNameOf stage)
                (DomainNameOf customDomain)\<rparr>"

definition createAuthorizer ::
  "Context \<Rightarrow> string \<Rightarrow> APIGatewayConfig \<Rightarrow> handle \<Rightarrow> handle \<Rightarrow> handle option build" where
  "createAuthorizer ctx name config component restAPI =
     (case AuthorizerFunc config of
        None \<Rightarrow> ret None
      | Some fn \<Rightarrow>
          andThen
            (create ctx (authorizerNode name component restAPI fn)
               ''failed to create authorizer'')
            (\<lambda>authorizer. ret (Some authorizer)))"

text \<open>
  Lines 275-317. The usage plan's arguments read \<^verbatim>\<open>Quota.Limit\<close> and
  \<^verbatim>\<open>Throttle.BurstLimit\<close> through pointers, after the key is declared: a nil one panics.
\<close>

definition createKeyAndPlan ::
  "Context \<Rightarrow> string \<Rightarrow> APIGatewayConfig \<Rightarrow> tags \<Rightarrow> handle \<Rightarrow> handle \<Rightarrow> handle
     \<Rightarrow> (handle option \<times> handle option) build" where
  "createKeyAndPlan ctx name config tags component restAPI stage =
     (if ApiKeyRequired config \<and> UsagePlanLimit config \<noteq> None then
        andThen
          (create ctx (apiKeyNode name tags component) ''failed to create API key'')
          (\<lambda>apiKey.
        case Option.bind (UsagePlanLimit config) Quota of
          None \<Rightarrow> fail NilPointerDereference
        | Some quota \<Rightarrow>
       (case Option.bind (UsagePlanLimit config) Throttle of
          None \<Rightarrow> fail NilPointerDereference
        | Some throttle \<Rightarrow>
        andThen
          (create ctx (usagePlanNode name tags component restAPI stage quota throttle)
             ''failed to create usage plan'')
          (\<lambda>usagePlan.
        andThen
          (create ctx (usagePlanKeyNode name component apiKey usagePlan)
             ''failed to create usage plan key'')
          (\<lambda>usagePlanKey. ret (Some apiKey, Some usagePlan)))))
      else ret (None, None))"

definition createCustomDomain ::
  "Context \<Rightarrow> string \<Rightarrow> APIGatewayConfig \<Rightarrow> tags \<Rightarrow> handle \<Rightarrow> handle \<Rightarrow> handle
     \<Rightarrow> handle option build" where
  "createCustomDomain ctx name config tags component restAPI stage =
     (case APIGatewayConfig.CustomDomain config of
        None \<Rightarrow> ret None
      | Some cd \<Rightarrow>
          andThen
            (create ctx (domainNameNode name tags component cd)
               ''failed to create custom domain'')
            (\<lambda>customDomain.
          andThen
            (create ctx (basePathMappingNode name component restAPI stage customDomain)
               ''failed to create base path mapping'')
            (\<lambda>mapping. ret (Some customDomain))))"

definition NewAPIGateway :: "Context \<Rightarrow> string \<Rightarrow> APIGatewayConfig \<Rightarrow> APIGateway build" where
  "NewAPIGateway ctx name config =
     andThen (create ctx (componentNode name) ''failed to register component'')
       (\<lambda>component.
     let tags = mergeTags config in
     andThen
       (create ctx (restApiNode name config tags component)
          ''failed to create REST API'')
       (\<lambda>restAPI.
     andThen (createAuthorizer ctx name config component restAPI)
       (\<lambda>authorizer.
     andThen
       (wireEndpoints ctx name config component restAPI authorizer (Endpoints config) Map.empty)
       (\<lambda>resources.
     andThen
       (create ctx (deploymentNode name config component restAPI)
          ''failed to create deployment'')
       (\<lambda>deployment.
     andThen
       (create ctx (stageNode name config tags component restAPI deployment)
          ''failed to create stage'')
       (\<lambda>stage.
     andThen (createKeyAndPlan ctx name config tags component restAPI stage)
       (\<lambda>(apiKey, usagePlan).
     andThen (createCustomDomain ctx name config tags component restAPI stage)
       (\<lambda>customDomain.
     ret
       \<lparr>RestAPI = restAPI, Deployment = deployment, Stage = stage, APIKey = apiKey,
        UsagePlan = usagePlan, CustomDomain = customDomain,
        BaseURL = Sprintf ''https://%s.execute-api.%s.amazonaws.com/%s''
                    [Out (ID restAPI), Str (Region ctx), Out (StageNameOf stage)],
        CustomDomainURL =
          map_option (\<lambda>d. Sprintf ''https://%s'' [Out (DomainNameOf d)]) customDomain\<rparr>))))))))"

section \<open>Observing the declarations\<close>

datatype kind =
    ComponentK | RestApiK | AuthorizerK | ResourceK | MethodK | IntegrationK | PermissionK
  | DeploymentK | StageK | ApiKeyK | UsagePlanK | UsagePlanKeyK | DomainNameK | BasePathMappingK

fun kindOf :: "args \<Rightarrow> kind" where
  "kindOf (ComponentArgs _) = ComponentK"
| "kindOf (RestApiArgs _ _ _ _) = RestApiK"
| "kindOf (AuthorizerArgs _ _ _ _ _ _) = AuthorizerK"
| "kindOf (ResourceArgs _ _ _) = ResourceK"
| "kindOf (MethodArgs _ _ _ _ _ _ _) = MethodK"
| "kindOf (IntegrationArgs _ _ _ _ _ _ _) = IntegrationK"
| "kindOf (PermissionArgs _ _ _ _) = PermissionK"
| "kindOf (DeploymentArgs _ _) = DeploymentK"
| "kindOf (StageArgs _ _ _ _) = StageK"
| "kindOf (ApiKeyArgs _ _) = ApiKeyK"
| "kindOf (UsagePlanArgs _ _ _ _ _) = UsagePlanK"
| "kindOf (UsagePlanKeyArgs _ _ _) = UsagePlanKeyK"
| "kindOf (DomainNameArgs _ _ _ _) = DomainNameK"
| "kindOf (BasePathMappingArgs _ _ _) = BasePathMappingK"

definition nkind :: "node \<Rightarrow> kind" where
  "nkind n = kindOf (nargs n)"

text \<open>
  The declarations of the loop over the endpoints, and those of the API key block.
\<close>

definition wiringKind :: "kind \<Rightarrow> bool" where
  "wiringKind k \<longleftrightarrow> k = ResourceK \<or> k = MethodK \<or> k = IntegrationK \<or> k = PermissionK"

definition keyPlanKind :: "kind \<Rightarrow> bool" where
  "keyPlanKind k \<longleftrightarrow> k = ApiKeyK \<or> k = UsagePlanK \<or> k = UsagePlanKeyK"

text \<open>The \<^verbatim>\<open>Tags\<close> argument of a declaration, for the argument structs that have one.\<close>

fun tagsOf :: "args \<Rightarrow> tags option" where
  "tagsOf (RestApiArgs _ _ _ t) = Some t"
| "tagsOf (StageArgs _ _ _ t) = Some t"
| "tagsOf (ApiKeyArgs _ t) = Some t"
| "tagsOf (UsagePlanArgs _ _ _ _ t) = Some t"
| "tagsOf (DomainNameArgs _ _ _ t) = Some t"
| "tagsOf _ = None"

text \<open>
  The engine derives the dependencies of a declaration from the outputs among its inputs.
  No call of the source passes a \<^verbatim>\<open>DependsOn\<close> option; the only option is the parent.
\<close>

fun outpHandle :: "outp \<Rightarrow> handle list" where
  "outpHandle (ID h) = [h]"
| "outpHandle (RootResourceId h) = [h]"
| "outpHandle (HttpMethodOf h) = [h]"
| "outpHandle (StageNameOf h) = [h]"
| "outpHandle (DomainNameOf h) = [h]"
| "outpHandle (InvokeArn _) = []"
| "outpHandle (FunctionName _) = []"

fun sinputOutps :: "sinput \<Rightarrow> outp list" where
  "sinputOutps (Str _) = []"
| "sinputOutps (Out x) = [x]"
| "sinputOutps (Sprintf _ xs) = concat (map sinputOutps xs)"

fun argOutps :: "args \<Rightarrow> outp list" where
  "argOutps (ComponentArgs _) = []"
| "argOutps (RestApiArgs _ _ _ _) = []"
| "argOutps (AuthorizerArgs restApi _ _ uri _ _) = [restApi, uri]"
| "argOutps (ResourceArgs restApi parentId _) = [restApi, parentId]"
| "argOutps (MethodArgs restApi resourceId _ _ _ authorizerId _) =
     [restApi, resourceId] @ (case authorizerId of None \<Rightarrow> [] | Some a \<Rightarrow> [a])"
| "argOutps (IntegrationArgs restApi resourceId httpMethod _ _ uri _) =
     [restApi, resourceId] @ sinputOutps httpMethod @ (case uri of None \<Rightarrow> [] | Some u \<Rightarrow> [u])"
| "argOutps (PermissionArgs _ function _ sourceArn) = function # sinputOutps sourceArn"
| "argOutps (DeploymentArgs restApi _) = [restApi]"
| "argOutps (StageArgs restApi deployment _ _) = [restApi, deployment]"
| "argOutps (ApiKeyArgs _ _) = []"
| "argOutps (UsagePlanArgs _ apiStages _ _ _) = concat (map (\<lambda>(a, s). [a, s]) apiStages)"
| "argOutps (UsagePlanKeyArgs keyId _ usagePlanId) = [keyId, usagePlanId]"
| "argOutps (DomainNameArgs _ _ _ _) = []"
| "argOutps (BasePathMappingArgs restApi stage domainName) = [restApi, stage, domainName]"

definition directDeps :: "node \<Rightarrow> handle list" where
  "directDeps n =
     (case parent n of None \<Rightarrow> [] | Some p \<Rightarrow> [p]) @ concat (map outpHandle (argOutps (nargs n)))"

definition depEdges :: "node list \<Rightarrow> (handle \<times> handle) list" where
  "depEdges log = concat (map (\<lambda>(i, n). map (Pair i) (directDeps n)) (enumerate 0 log))"

definition dependsOn :: "node list \<Rightarrow> handle \<Rightarrow> handle \<Rightarrow> bool" where
  "dependsOn log i j \<longleftrightarrow> (i, j) \<in> (set (depEdges log))\<^sup>+"

text \<open>The value of the deployment's \<^verbatim>\<open>redeployment\<close> trigger in the result of a run.\<close>

definition redeploymentTrigger :: "(err + APIGateway) \<times> node list \<Rightarrow> string option" where
  "redeploymentTrigger run =
     (case run of
        (Inl e, log) \<Rightarrow> None
      | (Inr c, log) \<Rightarrow>
          if Deployment c < length log then
            (case nargs (log ! Deployment c) of
               DeploymentArgs _ triggers \<Rightarrow> map_of triggers ''redeployment''
             | _ \<Rightarrow> None)
          else None)"

text \<open>The resource and method declarations of a run: the path tree and what hangs on it.\<close>

definition treeView :: "node list \<Rightarrow> args list" where
  "treeView log = map nargs (filter (\<lambda>n. nkind n = ResourceK \<or> nkind n = MethodK) log)"

text \<open>What one endpoint adds to the declarations when its wiring succeeds.\<close>

definition endpointBlock ::
  "Context \<Rightarrow> string \<Rightarrow> APIGatewayConfig \<Rightarrow> handle \<Rightarrow> handle \<Rightarrow> handle option
     \<Rightarrow> EndpointConfig \<Rightarrow> node list \<Rightarrow> bool" where
  "endpointBlock ctx name config component restAPI authorizer e block \<longleftrightarrow>
     (\<exists>rs leaf method fn.
        LambdaFunc e = Some fn \<and> list_all (\<lambda>n. nkind n = ResourceK) rs \<and>
        block =
          rs @
          [methodNode name component restAPI authorizer e leaf,
           integrationNode name component restAPI e leaf method fn,
           permissionNode ctx name component restAPI e fn] @
          (if EnableCORS config then
             [optionsMethodNode name component restAPI e leaf,
              optionsIntegrationNode name component restAPI e leaf]
           else []))"

text \<open>
  The preflight pair of the CORS branch on a leaf: an \<^verbatim>\<open>OPTIONS\<close> method with
  authorization \<^verbatim>\<open>NONE\<close> and no API key, and a \<^verbatim>\<open>MOCK\<close> integration with the fixed
  status template.
\<close>

definition corsBlock :: "handle \<Rightarrow> EndpointConfig \<Rightarrow> node list \<Rightarrow> bool" where
  "corsBlock restAPI e block \<longleftrightarrow>
     (\<exists>rs leaf m i p om oi authorizerId params uri.
        block = rs @ [m, i, p, om, oi] \<and>
        list_all (\<lambda>n. nkind n = ResourceK) rs \<and>
        nargs m = MethodArgs (ID restAPI) leaf (Method e) (Authorization e)
                    (EndpointConfig.ApiKeyRequired e) authorizerId params \<and>
        (\<exists>httpMethod. nargs i = IntegrationArgs (ID restAPI) leaf httpMethod ''AWS_PROXY''
                    (Some ''POST'') uri []) \<and>
        nkind p = PermissionK \<and>
        nargs om = MethodArgs (ID restAPI) leaf ''OPTIONS'' ''NONE'' False None None \<and>
        nargs oi = IntegrationArgs (ID restAPI) leaf (Str ''OPTIONS'') ''MOCK'' None None
                     [(''application/json'', statusCode200)])"

section \<open>Properties of a build, whatever the declarations made before it\<close>

definition emits :: "(node \<Rightarrow> bool) \<Rightarrow> 'a build \<Rightarrow> bool" where
  "emits P m \<longleftrightarrow> (\<forall>log. \<exists>new. snd (m log) = log @ new \<and> list_all P new)"

definition emitsThen :: "(node \<Rightarrow> bool) \<Rightarrow> (node \<Rightarrow> bool) \<Rightarrow> 'a build \<Rightarrow> bool" where
  "emitsThen P Q m \<longleftrightarrow>
     (\<forall>log. \<exists>new1 new2. snd (m log) = log @ new1 @ new2 \<and> list_all P new1 \<and> list_all Q new2)"

definition succeeds :: "'a build \<Rightarrow> bool" where
  "succeeds m \<longleftrightarrow> (\<forall>log. \<exists>a log'. m log = (Inr a, log'))"

section \<open>Example configurations\<close>

definition ctxAll :: Context where
  "ctxAll =
     \<lparr>provider = (\<lambda>log n. True), Region = ''us-east-1'', Account = ''123456789012''\<rparr>"

definition ep :: "string \<Rightarrow> string \<Rightarrow> EndpointConfig" where
  "ep path method =
     \<lparr>Path = path, Method = method, LambdaFunc = Some 4096, Authorization = ''NONE'',
      ApiKeyRequired = False, RequestParameters = None, RequestModels = None\<rparr>"

definition cfgOf :: "EndpointConfig list \<Rightarrow> APIGatewayConfig" where
  "cfgOf es =
     \<lparr>Name = ''Users API'', Description = ''API for managing users'', StageName = ''prod'',
      EnableCORS = False, AuthorizerFunc = None, ApiKeyRequired = False,
      UsagePlanLimit = None, CustomDomain = None, Endpoints = es, Tags = [],
      Environment = ''production''\<rparr>"

definition cfgUsers :: APIGatewayConfig where
  "cfgUsers =
     \<lparr>Name = ''Users API'', Description = ''API for managing users'', StageName = ''prod'',
      EnableCORS = True, AuthorizerFunc = None, ApiKeyRequired = True,
      UsagePlanLimit =
        Some \<lparr>Quota = Some \<lparr>Limit = 1000, Period = ''DAY''\<rparr>,
              Throttle = Some \<lparr>BurstLimit = 10, RateLimit = Float64 0x4014000000000000\<rparr>\<rparr>,
      CustomDomain =
        Some \<lparr>DomainName = ''api.example.com'', CertificateArn = ''arn:aws:acm:cert/abc123'',
              Route53ZoneId = ''''\<rparr>,
      Endpoints =
        [ep ''/users'' ''GET'',
         (ep ''/users'' ''POST'')
           \<lparr>LambdaFunc := Some 8192, EndpointConfig.ApiKeyRequired := True,
            RequestParameters := Some [(''method.request.header.Content-Type'', True)]\<rparr>],
      Tags = [(''Team'', ''Platform''), (''Department'', ''Engineering'')],
      Environment = ''production''\<rparr>"

definition usersLog :: "node list" where
  "usersLog =
     (let name = ''users-api''; tags = mergeTags cfgUsers;
          get = Endpoints cfgUsers ! 0; post = Endpoints cfgUsers ! 1;
          the_quota = \<lparr>Limit = 1000, Period = ''DAY''\<rparr>;
          the_throttle = \<lparr>BurstLimit = 10, RateLimit = Float64 0x4014000000000000\<rparr>;
          the_domain = \<lparr>DomainName = ''api.example.com'', CertificateArn = ''arn:aws:acm:cert/abc123'',
              Route53ZoneId = ''''\<rparr>
      in
      [componentNode name,
       restApiNode name cfgUsers tags 0,
       resourceNode name 0 1 (RootResourceId 1) ''/users'',
       methodNode name 0 1 None get (ID 2),
       integrationNode name 0 1 get (ID 2) 3 4096,
       permissionNode ctxAll name 0 1 get 4096,
       optionsMethodNode name 0 1 get (ID 2),
       optionsIntegrationNode name 0 1 get (ID 2),
       methodNode name 0 1 None post (ID 2),
       integrationNode name 0 1 post (ID 2) 8 8192,
       permissionNode ctxAll name 0 1 post 8192,
       optionsMethodNode name 0 1 post (ID 2),
       optionsIntegrationNode name 0 1 post (ID 2),
       deploymentNode name cfgUsers 0 1,
       stageNode name cfgUsers tags 0 1 13,
       apiKeyNode name tags 0,
       usagePlanNode name tags 0 1 14 the_quota the_throttle,
       usagePlanKeyNode name 0 15 16,
       domainNameNode name tags 0 the_domain,
       basePathMappingNode name 0 1 14 18])"

definition usersAPI :: APIGateway where
  "usersAPI =
     \<lparr>RestAPI = 1, Deployment = 13, Stage = 14, APIKey = Some 15, UsagePlan = Some 16,
      CustomDomain = Some 18,
      BaseURL = Sprintf ''https://%s.execute-api.%s.amazonaws.com/%s''
                  [Out (ID 1), Str ''us-east-1'', Out (StageNameOf 14)],
      CustomDomainURL = Some (Sprintf ''https://%s'' [Out (DomainNameOf 18)])\<rparr>"

definition cfgOne :: APIGatewayConfig where
  "cfgOne = cfgOf [ep ''/users'' ''GET'']"

definition oneLog :: "node list" where
  "oneLog =
     (let name = ''api''; get = ep ''/users'' ''GET'' in
      [componentNode name,
       restApiNode name cfgOne (mergeTags cfgOne) 0,
       resourceNode name 0 1 (RootResourceId 1) ''/users'',
       methodNode name 0 1 None get (ID 2),
       integrationNode name 0 1 get (ID 2) 3 4096,
       permissionNode ctxAll name 0 1 get 4096,
       deploymentNode name cfgOne 0 1,
       stageNode name cfgOne (mergeTags cfgOne) 0 1 6])"

definition oneAPI :: APIGateway where
  "oneAPI =
     \<lparr>RestAPI = 1, Deployment = 6, Stage = 7, APIKey = None, UsagePlan = None,
      CustomDomain = None,
      BaseURL = Sprintf ''https://%s.execute-api.%s.amazonaws.com/%s''
                  [Out (ID 1), Str ''us-east-1'', Out (StageNameOf 7)],
      CustomDomainURL = None\<rparr>"

definition cfgSpaceA :: APIGatewayConfig where
  "cfgSpaceA = cfgOf [ep ''/a b'' ''c'']"

definition cfgSpaceB :: APIGatewayConfig where
  "cfgSpaceB = cfgOf [ep ''/a'' ''b c'']"

definition cfgUsersPut :: APIGatewayConfig where
  "cfgUsersPut =
     cfgOne\<lparr>Endpoints := [(ep ''/users'' ''GET'')\<lparr>Method := ''PUT''\<rparr>]\<rparr>"

definition ctxUnique :: Context where
  "ctxUnique =
     \<lparr>provider = (\<lambda>log n. \<forall>m \<in> set log. \<not> (rname m = rname n \<and> nkind m = nkind n)),
      Region = ''us-east-1'', Account = ''123456789012''\<rparr>"

definition cfgKeyNoPlan :: APIGatewayConfig where
  "cfgKeyNoPlan = (cfgOf [])\<lparr>ApiKeyRequired := True\<rparr>"

definition cfgDuplicate :: APIGatewayConfig where
  "cfgDuplicate = cfgOf [ep ''/users'' ''GET'', ep ''/users'' ''GET'']"

definition cfgPrefix :: APIGatewayConfig where
  "cfgPrefix = cfgOf [ep ''/users/{id}'' ''GET'', ep ''/users/{id}/profile'' ''GET'']"

definition cfgSlashes :: APIGatewayConfig where
  "cfgSlashes = cfgOf [ep ''/a/b/'' ''GET'', ep ''/a/b'' ''GET'', ep ''//a//b'' ''GET'']"

definition cfgRoot :: APIGatewayConfig where
  "cfgRoot = cfgOf [ep ''/'' ''GET'']"

definition cfgEmptyPath :: APIGatewayConfig where
  "cfgEmptyPath = cfgOf [ep [] ''GET'']"

definition cfgOverride :: APIGatewayConfig where
  "cfgOverride = (cfgOf [])\<lparr>Tags := [(''Environment'', ''z'')], Environment := ''x''\<rparr>"

section \<open>Basic facts\<close>

lemma fold_upd_map_add:
  "fold (\<lambda>(k, v) m. m(k \<mapsto> v)) xs m0 = m0 ++ map_of (rev xs)"
  by (induction xs arbitrary: m0) (auto simp: map_add_def fun_eq_iff split: option.splits)

lemma map_of_rev_distinct:
  assumes "distinct (map fst xs)"
  shows "map_of (rev xs) = map_of xs"
proof -
  have "distinct (map fst (rev xs))"
    using assms by (simp add: rev_map [symmetric])
  then show ?thesis
    using assms by (simp add: map_of_inject_set)
qed

lemma andThen_Inr:
  "andThen m f log = (Inr b, log'') \<longleftrightarrow>
     (\<exists>a log'. m log = (Inr a, log') \<and> f a log' = (Inr b, log''))"
  by (auto simp: andThen_def split: prod.splits sum.splits)

lemma create_Inr:
  "create ctx n msg log = (Inr h, log') \<longleftrightarrow>
     provider ctx log n \<and> h = length log \<and> log' = log @ [n]"
  by (auto simp: create_def)

lemma ret_Inr: "ret a log = (Inr b, log') \<longleftrightarrow> b = a \<and> log' = log"
  by (auto simp: ret_def)

lemma fail_Inr: "fail e log = (Inr b, log') \<longleftrightarrow> False"
  by (simp add: fail_def)

subsection \<open>emits\<close>

lemma emits_ret: "emits P (ret a)"
  by (simp add: emits_def ret_def)

lemma emits_fail: "emits P (fail e)"
  by (simp add: emits_def fail_def)

lemma emits_create: "P n \<Longrightarrow> emits P (create ctx n msg)"
  by (simp add: emits_def create_def)

lemma emits_andThen:
  assumes m: "emits P m" and f: "\<And>a. emits P (f a)"
  shows "emits P (andThen m f)"
  unfolding emits_def
proof
  fix log
  obtain r log1 where run: "m log = (r, log1)"
    by (cases "m log")
  from m obtain new1 where new1: "log1 = log @ new1" "list_all P new1"
    unfolding emits_def using run by (metis snd_conv)
  show "\<exists>new. snd (andThen m f log) = log @ new \<and> list_all P new"
  proof (cases r)
    case (Inl e)
    then show ?thesis
      using run new1 by (simp add: andThen_def)
  next
    case (Inr a)
    from f [of a] obtain new2 where "snd (f a log1) = log1 @ new2" "list_all P new2"
      unfolding emits_def by blast
    then show ?thesis
      using run new1 Inr by (simp add: andThen_def)
  qed
qed

lemma emits_mono: "emits P m \<Longrightarrow> (\<And>n. P n \<Longrightarrow> Q n) \<Longrightarrow> emits Q m"
  unfolding emits_def by (meson list.pred_mono_strong)

lemma emitsD:
  "emits P m \<Longrightarrow> m log = (r, log') \<Longrightarrow> \<exists>new. log' = log @ new \<and> list_all P new"
  unfolding emits_def by (metis snd_conv)

lemma emits_buildPath:
  assumes "\<And>resource pathPart. P (resourceNode name component restAPI resource pathPart)"
  shows "emits P (buildPath ctx name component restAPI parts st)"
proof (induction parts arbitrary: st)
  case Nil
  show ?case by (simp add: emits_ret)
next
  case (Cons pathPart parts)
  obtain parentPath resource resources where st: "st = (parentPath, resource, resources)"
    by (cases st)
  show ?case
    unfolding st
    by (auto simp: Let_def Cons.IH assms intro!: emits_andThen emits_create split: option.splits)
qed

lemma emits_wireEndpoint:
  assumes "\<And>resource pathPart. P (resourceNode name component restAPI resource pathPart)"
    and "\<And>leaf. P (methodNode name component restAPI authorizer e leaf)"
    and "\<And>leaf method fn. P (integrationNode name component restAPI e leaf method fn)"
    and "\<And>fn. P (permissionNode ctx name component restAPI e fn)"
    and "\<And>leaf. P (optionsMethodNode name component restAPI e leaf)"
    and "\<And>leaf. P (optionsIntegrationNode name component restAPI e leaf)"
  shows "emits P (wireEndpoint ctx name config component restAPI authorizer e resources)"
  unfolding wireEndpoint_def
  by (auto intro!: emits_andThen emits_create emits_buildPath emits_ret emits_fail assms
      split: option.splits prod.splits)

lemma emits_wireEndpoints:
  assumes "\<And>resource pathPart. P (resourceNode name component restAPI resource pathPart)"
    and "\<And>e leaf. P (methodNode name component restAPI authorizer e leaf)"
    and "\<And>e leaf method fn. P (integrationNode name component restAPI e leaf method fn)"
    and "\<And>e fn. P (permissionNode ctx name component restAPI e fn)"
    and "\<And>e leaf. P (optionsMethodNode name component restAPI e leaf)"
    and "\<And>e leaf. P (optionsIntegrationNode name component restAPI e leaf)"
  shows "emits P (wireEndpoints ctx name config component restAPI authorizer es resources)"
proof (induction es arbitrary: resources)
  case Nil
  show ?case by (simp add: emits_ret)
next
  case (Cons e es)
  show ?case
    by (simp, rule emits_andThen, rule emits_wireEndpoint) (simp_all add: assms Cons.IH)
qed

lemma emits_createAuthorizer:
  assumes "\<And>fn. P (authorizerNode name component restAPI fn)"
  shows "emits P (createAuthorizer ctx name config component restAPI)"
  unfolding createAuthorizer_def
  by (auto intro!: emits_andThen emits_create emits_ret assms split: option.splits)

lemma emits_createKeyAndPlan:
  assumes "ApiKeyRequired config \<and> UsagePlanLimit config \<noteq> None \<Longrightarrow>
      P (apiKeyNode name tags component) \<and>
      (\<forall>q t. P (usagePlanNode name tags component restAPI stage q t)) \<and>
      (\<forall>k p. P (usagePlanKeyNode name component k p))"
  shows "emits P (createKeyAndPlan ctx name config tags component restAPI stage)"
  unfolding createKeyAndPlan_def
  using assms
  by (auto intro!: emits_andThen emits_create emits_ret emits_fail split: option.splits)

lemma emits_createCustomDomain:
  assumes "\<And>cd. P (domainNameNode name tags component cd)"
    and "\<And>d. P (basePathMappingNode name component restAPI stage d)"
  shows "emits P (createCustomDomain ctx name config tags component restAPI stage)"
  unfolding createCustomDomain_def
  by (auto intro!: emits_andThen emits_create emits_ret assms split: option.splits)

lemmas node_defs =
  componentNode_def restApiNode_def authorizerNode_def resourceNode_def methodNode_def
  integrationNode_def permissionNode_def optionsMethodNode_def optionsIntegrationNode_def
  deploymentNode_def stageNode_def apiKeyNode_def usagePlanNode_def usagePlanKeyNode_def
  domainNameNode_def basePathMappingNode_def

lemma emits_case_prod: "(\<And>a b. emits P (f a b)) \<Longrightarrow> emits P (case x of (a, b) \<Rightarrow> f a b)"
  by (cases x) simp

lemma emits_tags:
  "emits (\<lambda>n. \<forall>t. tagsOf (nargs n) = Some t \<longrightarrow> t = mergeTags config)
     (NewAPIGateway ctx name config)"
  unfolding NewAPIGateway_def Let_def
  by (intro emits_andThen emits_create emits_ret emits_wireEndpoints emits_createAuthorizer
        emits_createKeyAndPlan emits_createCustomDomain emits_case_prod allI conjI impI;
      simp add: node_defs)

lemmas run_defs =
  NewAPIGateway_def andThen_def create_def ret_def fail_def createAuthorizer_def
  wireEndpoint_def splitPath_def createKeyAndPlan_def createCustomDomain_def Let_def

lemma users_run: "NewAPIGateway ctxAll ''users-api'' cfgUsers [] = (Inr usersAPI, usersLog)"
  by (simp add: run_defs cfgUsers_def ctxAll_def ep_def usersLog_def usersAPI_def node_defs
      numeral_2_eq_2 numeral_3_eq_3)

section \<open>Successful runs\<close>

lemma buildPath_Inr:
  assumes "buildPath ctx name component restAPI parts st log = (Inr st', log')"
  shows "\<exists>rs. log' = log @ rs \<and> list_all (\<lambda>n. nkind n = ResourceK) rs"
proof -
  have "emits (\<lambda>n. nkind n = ResourceK) (buildPath ctx name component restAPI parts st)"
    by (rule emits_buildPath) (simp add: resourceNode_def nkind_def)
  then show ?thesis
    using assms by (rule emitsD)
qed

lemma wireEndpoint_Inr:
  assumes "wireEndpoint ctx name config component restAPI authorizer e resources log =
             (Inr resources', log')"
  shows "\<exists>block. log' = log @ block \<and>
           endpointBlock ctx name config component restAPI authorizer e block"
proof -
  from assms obtain parentPath leaf res1 log1 where
    path: "buildPath ctx name component restAPI (splitPath (Path e))
             (''/'', RootResourceId restAPI, resources) log = (Inr (parentPath, leaf, res1), log1)"
    and rest: "andThen
       (create ctx (methodNode name component restAPI authorizer e leaf)
          ''failed to create method'')
       (\<lambda>method.
     case LambdaFunc e of
       None \<Rightarrow> fail NilPointerDereference
     | Some fn \<Rightarrow>
     andThen
       (create ctx (integrationNode name component restAPI e leaf method fn)
          ''failed to create integration'')
       (\<lambda>integration.
     andThen
       (create ctx (permissionNode ctx name component restAPI e fn)
          ''failed to create lambda permission'')
       (\<lambda>permission.
     if EnableCORS config then
       andThen
         (create ctx (optionsMethodNode name component restAPI e leaf)
            ''failed to create OPTIONS method'')
         (\<lambda>optionsMethod.
       andThen
         (create ctx (optionsIntegrationNode name component restAPI e leaf)
            ''failed to create OPTIONS integration'')
         (\<lambda>optionsIntegration. ret res1))
     else ret res1))) log1 = (Inr resources', log')"
    unfolding wireEndpoint_def andThen_Inr [of "buildPath _ _ _ _ _ _"]
    by (auto split: prod.splits)
  from buildPath_Inr [OF path] obtain rs where
    rs: "log1 = log @ rs" "list_all (\<lambda>n. nkind n = ResourceK) rs"
    by blast
  from rest obtain fn where fn: "LambdaFunc e = Some fn"
    by (cases "LambdaFunc e") (auto simp: andThen_Inr fail_Inr)
  from rest have
    "log' = log1 @
       [methodNode name component restAPI authorizer e leaf,
        integrationNode name component restAPI e leaf (length log1) fn,
        permissionNode ctx name component restAPI e fn] @
       (if EnableCORS config then
          [optionsMethodNode name component restAPI e leaf,
           optionsIntegrationNode name component restAPI e leaf]
        else [])"
    by (auto simp: fn andThen_Inr create_Inr ret_Inr split: if_splits)
  then show ?thesis
    unfolding endpointBlock_def using rs fn by auto
qed

lemma wireEndpoints_Inr:
  assumes "wireEndpoints ctx name config component restAPI authorizer es resources log =
             (Inr resources', log')"
  shows "\<exists>blocks. log' = log @ concat blocks \<and>
           list_all2 (endpointBlock ctx name config component restAPI authorizer) es blocks"
  using assms
proof (induction es arbitrary: resources log)
  case Nil
  then show ?case by (simp add: ret_Inr)
next
  case (Cons e es)
  from Cons.prems obtain res1 log1 where
    first: "wireEndpoint ctx name config component restAPI authorizer e resources log =
              (Inr res1, log1)"
    and rest: "wireEndpoints ctx name config component restAPI authorizer es res1 log1 =
              (Inr resources', log')"
    by (auto simp: andThen_Inr)
  from wireEndpoint_Inr [OF first] obtain block where
    block: "log1 = log @ block"
      "endpointBlock ctx name config component restAPI authorizer e block"
    by blast
  from Cons.IH [OF rest] obtain blocks where
    blocks: "log' = log1 @ concat blocks"
      "list_all2 (endpointBlock ctx name config component restAPI authorizer) es blocks"
    by blast
  have "log' = log @ concat (block # blocks)"
    using block blocks by simp
  moreover have
    "list_all2 (endpointBlock ctx name config component restAPI authorizer) (e # es)
       (block # blocks)"
    using block blocks by simp
  ultimately show ?case by blast
qed

lemma createAuthorizer_Inr:
  assumes "createAuthorizer ctx name config component restAPI log = (Inr a, log')"
  shows "\<exists>new. log' = log @ new \<and> list_all (\<lambda>n. nkind n = AuthorizerK) new"
proof -
  have "emits (\<lambda>n. nkind n = AuthorizerK) (createAuthorizer ctx name config component restAPI)"
    by (rule emits_createAuthorizer) (simp add: authorizerNode_def nkind_def)
  then show ?thesis
    using assms by (rule emitsD)
qed

lemma createCustomDomain_Inr:
  assumes "createCustomDomain ctx name config tags component restAPI stage log = (Inr d, log')"
  shows "\<exists>new. log' = log @ new \<and>
           list_all (\<lambda>n. nkind n = DomainNameK \<or> nkind n = BasePathMappingK) new"
proof -
  have "emits (\<lambda>n. nkind n = DomainNameK \<or> nkind n = BasePathMappingK)
          (createCustomDomain ctx name config tags component restAPI stage)"
    by (rule emits_createCustomDomain)
      (simp_all add: domainNameNode_def basePathMappingNode_def nkind_def)
  then show ?thesis
    using assms by (rule emitsD)
qed

lemma createKeyAndPlan_Inr:
  assumes "createKeyAndPlan ctx name config tags component restAPI stage log =
             (Inr (apiKey, usagePlan), log')"
  shows "if ApiKeyRequired config \<and> UsagePlanLimit config \<noteq> None then
           \<exists>up q t. UsagePlanLimit config = Some up \<and> Quota up = Some q \<and> Throttle up = Some t \<and>
             apiKey = Some (length log) \<and> usagePlan = Some (Suc (length log)) \<and>
             log' = log @
               [apiKeyNode name tags component,
                usagePlanNode name tags component restAPI stage q t,
                usagePlanKeyNode name component (length log) (Suc (length log))]
         else apiKey = None \<and> usagePlan = None \<and> log' = log"
  using assms unfolding createKeyAndPlan_def
  by (auto simp: andThen_Inr create_Inr ret_Inr fail_Inr Option.bind_eq_Some_conv
      split: option.splits if_splits)

lemma NewAPIGateway_Inr:
  assumes "NewAPIGateway ctx name config [] = (Inr c, log)"
  shows "\<exists>auth authorizer blocks keys doms.
      log = [componentNode name, restApiNode name config (mergeTags config) 0] @ auth @
            concat blocks @
            [deploymentNode name config 0 1,
             stageNode name config (mergeTags config) 0 1 (Deployment c)] @ keys @ doms \<and>
      list_all (\<lambda>n. nkind n = AuthorizerK) auth \<and>
      list_all2 (endpointBlock ctx name config 0 1 authorizer) (Endpoints config) blocks \<and>
      RestAPI c = 1 \<and>
      Deployment c = 2 + length auth + length (concat blocks) \<and>
      Stage c = Suc (Deployment c) \<and>
      (if ApiKeyRequired config \<and> UsagePlanLimit config \<noteq> None then
         \<exists>up q t. UsagePlanLimit config = Some up \<and> Quota up = Some q \<and> Throttle up = Some t \<and>
           APIKey c = Some (Stage c + 1) \<and> UsagePlan c = Some (Stage c + 2) \<and>
           keys =
             [apiKeyNode name (mergeTags config) 0,
              usagePlanNode name (mergeTags config) 0 1 (Stage c) q t,
              usagePlanKeyNode name 0 (Stage c + 1) (Stage c + 2)]
       else APIKey c = None \<and> UsagePlan c = None \<and> keys = []) \<and>
      list_all (\<lambda>n. nkind n = DomainNameK \<or> nkind n = BasePathMappingK) doms"
proof -
  let ?tags = "mergeTags config"
  let ?l0 = "[componentNode name, restApiNode name config ?tags 0]"
  from assms obtain authorizer log2 resources log3 apiKey usagePlan log4 customDomain where
    a: "createAuthorizer ctx name config 0 1 ?l0 = (Inr authorizer, log2)"
    and w: "wireEndpoints ctx name config 0 1 authorizer (Endpoints config) Map.empty log2 =
              (Inr resources, log3)"
    and k: "createKeyAndPlan ctx name config ?tags 0 1 (Suc (length log3))
              (log3 @ [deploymentNode name config 0 1,
                       stageNode name config ?tags 0 1 (length log3)]) =
              (Inr (apiKey, usagePlan), log4)"
    and d: "createCustomDomain ctx name config ?tags 0 1 (Suc (length log3)) log4 =
              (Inr customDomain, log)"
    and c: "RestAPI c = 1" "Deployment c = length log3" "Stage c = Suc (length log3)"
      "APIKey c = apiKey" "UsagePlan c = usagePlan"
    unfolding NewAPIGateway_def Let_def
    by (auto simp: andThen_Inr create_Inr ret_Inr split: prod.splits)
  from createAuthorizer_Inr [OF a] obtain auth where
    auth: "log2 = ?l0 @ auth" "list_all (\<lambda>n. nkind n = AuthorizerK) auth"
    by blast
  from wireEndpoints_Inr [OF w] obtain blocks where
    blocks: "log3 = log2 @ concat blocks"
      "list_all2 (endpointBlock ctx name config 0 1 authorizer) (Endpoints config) blocks"
    by blast
  from createCustomDomain_Inr [OF d] obtain doms where
    doms: "log = log4 @ doms"
      "list_all (\<lambda>n. nkind n = DomainNameK \<or> nkind n = BasePathMappingK) doms"
    by blast
  have len: "length log3 = 2 + length auth + length (concat blocks)"
    using auth blocks by simp
  let ?l3 = "log3 @ [deploymentNode name config 0 1, stageNode name config ?tags 0 1 (length log3)]"
  define keys where "keys = drop (length ?l3) log4"
  have keys: "log4 = ?l3 @ keys"
    using createKeyAndPlan_Inr [OF k] unfolding keys_def by (auto split: if_splits)
  have keyPart:
    "if ApiKeyRequired config \<and> UsagePlanLimit config \<noteq> None then
         \<exists>up q t. UsagePlanLimit config = Some up \<and> Quota up = Some q \<and> Throttle up = Some t \<and>
           APIKey c = Some (Stage c + 1) \<and> UsagePlan c = Some (Stage c + 2) \<and>
           keys =
             [apiKeyNode name (mergeTags config) 0,
              usagePlanNode name (mergeTags config) 0 1 (Stage c) q t,
              usagePlanKeyNode name 0 (Stage c + 1) (Stage c + 2)]
       else APIKey c = None \<and> UsagePlan c = None \<and> keys = []"
    using createKeyAndPlan_Inr [OF k] c unfolding keys_def by (auto split: if_splits)
  have "log = ?l0 @ auth @ concat blocks @
      [deploymentNode name config 0 1, stageNode name config ?tags 0 1 (Deployment c)] @
      keys @ doms"
    using auth blocks keys doms c by simp
  with auth(2) blocks(2) c len keyPart doms(2) show ?thesis
    by (intro exI [of _ auth] exI [of _ authorizer] exI [of _ blocks] exI [of _ keys]
        exI [of _ doms]) simp
qed

lemma nkind_simps:
  "nkind (componentNode name) = ComponentK"
  "nkind (restApiNode name config tags component) = RestApiK"
  "nkind (authorizerNode name component restAPI fn) = AuthorizerK"
  "nkind (resourceNode name component restAPI resource pathPart) = ResourceK"
  "nkind (methodNode name component restAPI authorizer e leaf) = MethodK"
  "nkind (integrationNode name component restAPI e leaf method fn) = IntegrationK"
  "nkind (permissionNode ctx name component restAPI e fn) = PermissionK"
  "nkind (optionsMethodNode name component restAPI e leaf) = MethodK"
  "nkind (optionsIntegrationNode name component restAPI e leaf) = IntegrationK"
  "nkind (deploymentNode name config component restAPI) = DeploymentK"
  "nkind (stageNode name config tags component restAPI deployment) = StageK"
  "nkind (apiKeyNode name tags component) = ApiKeyK"
  "nkind (usagePlanNode name tags component restAPI stage q t) = UsagePlanK"
  "nkind (usagePlanKeyNode name component k p) = UsagePlanKeyK"
  "nkind (domainNameNode name tags component cd) = DomainNameK"
  "nkind (basePathMappingNode name component restAPI stage d) = BasePathMappingK"
  by (simp_all add: nkind_def node_defs)

lemma filter_none:
  "list_all P xs \<Longrightarrow> (\<And>x. P x \<Longrightarrow> \<not> Q x) \<Longrightarrow> filter Q xs = []"
  by (induction xs) auto

lemma endpointBlock_kinds:
  assumes "endpointBlock ctx name config component restAPI authorizer e block"
  shows "list_all (\<lambda>n. wiringKind (nkind n)) block"
  using assms unfolding endpointBlock_def
  by (auto simp: nkind_simps wiringKind_def list_all_iff)

lemma blocks_kinds:
  assumes "list_all2 (endpointBlock ctx name config component restAPI authorizer) es blocks"
  shows "list_all (\<lambda>n. wiringKind (nkind n)) (concat blocks)"
  using assms
  by (induction es blocks rule: list_all2_induct) (simp_all add: endpointBlock_kinds)

lemma emits_no_key_plan:
  assumes "\<not> (ApiKeyRequired config \<and> UsagePlanLimit config \<noteq> None)"
  shows "emits (\<lambda>n. \<not> keyPlanKind (nkind n)) (NewAPIGateway ctx name config)"
  unfolding NewAPIGateway_def Let_def
  using assms
  by (intro emits_andThen emits_create emits_ret emits_wireEndpoints emits_createAuthorizer
        emits_createKeyAndPlan emits_createCustomDomain emits_case_prod allI conjI impI;
      auto simp: nkind_simps keyPlanKind_def)

subsection \<open>emitsThen\<close>

lemma emitsThen_andThen:
  assumes m: "emits P m" and f: "\<And>a. emitsThen P Q (f a)"
  shows "emitsThen P Q (andThen m f)"
  unfolding emitsThen_def
proof
  fix log
  obtain r log1 where run: "m log = (r, log1)"
    by (cases "m log")
  from emitsD [OF m run] obtain new where new: "log1 = log @ new" "list_all P new"
    by blast
  show "\<exists>new1 new2. snd (andThen m f log) = log @ new1 @ new2 \<and> list_all P new1 \<and> list_all Q new2"
  proof (cases r)
    case (Inl e)
    then have "snd (andThen m f log) = log @ new @ []"
      using run new by (simp add: andThen_def)
    moreover have "list_all Q []"
      by simp
    ultimately show ?thesis
      using new(2) by blast
  next
    case (Inr a)
    from f [of a] obtain new1 new2 where
      "snd (f a log1) = log1 @ new1 @ new2" "list_all P new1" "list_all Q new2"
      unfolding emitsThen_def by blast
    then have "snd (andThen m f log) = log @ (new @ new1) @ new2" "list_all P (new @ new1)"
      using run new Inr by (simp_all add: andThen_def)
    then show ?thesis
      using \<open>list_all Q new2\<close> by blast
  qed
qed

lemma emitsThen_second:
  assumes "emits Q m"
  shows "emitsThen P Q m"
  unfolding emitsThen_def
proof
  fix log
  from assms obtain new where "snd (m log) = log @ new" "list_all Q new"
    unfolding emits_def by blast
  then have "snd (m log) = log @ [] @ new \<and> list_all P [] \<and> list_all Q new"
    by simp
  then show "\<exists>new1 new2. snd (m log) = log @ new1 @ new2 \<and> list_all P new1 \<and> list_all Q new2"
    by blast
qed

lemma emits_after_wiring:
  "emits (\<lambda>n. \<not> wiringKind (nkind n))
     (andThen
       (create ctx (deploymentNode name config component restAPI)
          ''failed to create deployment'')
       (\<lambda>deployment.
     andThen
       (create ctx (stageNode name config tags component restAPI deployment)
          ''failed to create stage'')
       (\<lambda>stage.
     andThen (createKeyAndPlan ctx name config tags component restAPI stage)
       (\<lambda>(apiKey, usagePlan).
     andThen (createCustomDomain ctx name config tags component restAPI stage)
       (\<lambda>customDomain. ret (g deployment stage apiKey usagePlan customDomain))))))"
  by (intro emits_andThen emits_create emits_ret emits_createKeyAndPlan
        emits_createCustomDomain emits_case_prod allI conjI impI;
      simp add: nkind_simps wiringKind_def)

lemma emitsThen_NewAPIGateway:
  "emitsThen (\<lambda>n. nkind n \<noteq> DeploymentK) (\<lambda>n. \<not> wiringKind (nkind n))
     (NewAPIGateway ctx name config)"
  unfolding NewAPIGateway_def Let_def
  apply (rule emitsThen_andThen)
   apply (rule emits_create, simp add: nkind_simps)
  apply (rule emitsThen_andThen)
   apply (rule emits_create, simp add: nkind_simps)
  apply (rule emitsThen_andThen)
   apply (rule emits_createAuthorizer, simp add: nkind_simps)
  apply (rule emitsThen_andThen)
   apply (rule emits_wireEndpoints; simp add: nkind_simps)
  apply (rule emitsThen_second)
  apply (rule emits_after_wiring)
  done

subsection \<open>Dependencies\<close>

lemma in_depEdges:
  "(i, j) \<in> set (depEdges log) \<longleftrightarrow> i < length log \<and> j \<in> set (directDeps (log ! i))"
proof
  assume "(i, j) \<in> set (depEdges log)"
  then show "i < length log \<and> j \<in> set (directDeps (log ! i))"
    by (auto simp: depEdges_def in_set_enumerate_eq)
next
  assume a: "i < length log \<and> j \<in> set (directDeps (log ! i))"
  then have "(i, log ! i) \<in> set (enumerate 0 log)"
    by (simp add: in_set_enumerate_eq)
  with a show "(i, j) \<in> set (depEdges log)"
    unfolding depEdges_def by force
qed

lemma dependsOn_closed:
  assumes "dependsOn log i j"
    and start: "\<And>y. y \<in> set (directDeps (log ! i)) \<Longrightarrow> y \<in> S"
    and step: "\<And>x y. x \<in> S \<Longrightarrow> x < length log \<Longrightarrow> y \<in> set (directDeps (log ! x)) \<Longrightarrow> y \<in> S"
  shows "j \<in> S"
proof -
  from assms(1) have "(i, j) \<in> (set (depEdges log))\<^sup>+"
    by (simp add: dependsOn_def)
  then show ?thesis
  proof (induction rule: trancl_induct)
    case (base y)
    then show ?case by (simp add: in_depEdges start)
  next
    case (step y z)
    then show ?case using assms(3) by (simp add: in_depEdges)
  qed
qed

lemma directDeps_simps:
  "directDeps (componentNode name) = []"
  "directDeps (restApiNode name config tags component) = [component]"
  "directDeps (deploymentNode name config component restAPI) = [component, restAPI]"
  by (simp_all add: directDeps_def node_defs)

lemma one_run: "NewAPIGateway ctxAll ''api'' cfgOne [] = (Inr oneAPI, oneLog)"
  by (simp add: run_defs cfgOne_def cfgOf_def ctxAll_def ep_def oneLog_def oneAPI_def node_defs
      numeral_2_eq_2 numeral_3_eq_3)

lemma endpointBlock_cors:
  assumes "endpointBlock ctx name config component restAPI authorizer e block"
    and "EnableCORS config"
  shows "corsBlock restAPI e block"
proof -
  from assms obtain rs leaf m fn where
    rs: "list_all (\<lambda>n. nkind n = ResourceK) rs"
    and block: "block =
          rs @
          [methodNode name component restAPI authorizer e leaf,
           integrationNode name component restAPI e leaf m fn,
           permissionNode ctx name component restAPI e fn,
           optionsMethodNode name component restAPI e leaf,
           optionsIntegrationNode name component restAPI e leaf]"
    unfolding endpointBlock_def by auto
  show ?thesis
    unfolding corsBlock_def
    apply (rule exI [of _ rs], rule exI [of _ leaf])
    apply (rule exI [of _ "methodNode name component restAPI authorizer e leaf"])
    apply (rule exI [of _ "integrationNode name component restAPI e leaf m fn"])
    apply (rule exI [of _ "permissionNode ctx name component restAPI e fn"])
    apply (rule exI [of _ "optionsMethodNode name component restAPI e leaf"])
    apply (rule exI [of _ "optionsIntegrationNode name component restAPI e leaf"])
    apply (simp add: block rs nkind_simps)
    apply (simp add: node_defs)
    done
qed

subsection \<open>The trigger string\<close>

lemma deployment_node_at:
  assumes "NewAPIGateway ctx name config [] = (Inr c, log)"
  shows "Deployment c < length log \<and> log ! Deployment c = deploymentNode name config 0 1"
proof -
  from NewAPIGateway_Inr [OF assms] obtain auth authorizer blocks keys doms where
    log: "log = [componentNode name, restApiNode name config (mergeTags config) 0] @ auth @
            concat blocks @
            [deploymentNode name config 0 1,
             stageNode name config (mergeTags config) 0 1 (Deployment c)] @ keys @ doms"
    and c: "Deployment c = 2 + length auth + length (concat blocks)"
    by blast
  define headPart where
    "headPart = [componentNode name, restApiNode name config (mergeTags config) 0] @ auth @
       concat blocks"
  define tailPart where
    "tailPart = stageNode name config (mergeTags config) 0 1 (Deployment c) # keys @ doms"
  have cut: "log = headPart @ deploymentNode name config 0 1 # tailPart"
    and len: "length headPart = Deployment c"
    using log c by (simp_all add: headPart_def tailPart_def)
  have "log ! length headPart = deploymentNode name config 0 1"
    unfolding cut by (rule nth_append_length)
  moreover have "length headPart < length log"
    unfolding cut by simp
  ultimately show ?thesis
    unfolding len by simp
qed

lemma redeploymentTrigger_Inr:
  assumes "NewAPIGateway ctx name config [] = (Inr c, log)"
  shows "redeploymentTrigger (Inr c, log) = Some (fmtEndpoints (Endpoints config))"
  using deployment_node_at [OF assms]
  by (simp add: redeploymentTrigger_def deploymentNode_def)

lemma no_space_split:
  assumes "CHR '' '' \<notin> set a" "CHR '' '' \<notin> set b"
    and "a @ CHR '' '' # x = b @ CHR '' '' # y"
  shows "a = b \<and> x = y"
  using assms
proof (induction a arbitrary: b)
  case Nil
  then show ?case by (cases b) auto
next
  case (Cons u a)
  then show ?case by (cases b) auto
qed

lemma joinWith_concat:
  "joinWith sep xs = drop (length sep) (concat (map (\<lambda>x. sep @ x) xs))"
  by (induction sep xs rule: joinWith.induct) simp_all

lemma joinWith_inj_at:
  assumes "joinWith sep (pre @ x # post) = joinWith sep (pre @ y # post)"
  shows "x = y"
proof -
  let ?P = "concat (map (\<lambda>x. sep @ x) pre) @ sep"
  let ?Q = "concat (map (\<lambda>x. sep @ x) post)"
  have "drop (length sep) (?P @ x @ ?Q) = drop (length sep) (?P @ y @ ?Q)"
    using assms by (simp add: joinWith_concat)
  then have "drop (length sep) ?P @ x @ ?Q = drop (length sep) ?P @ y @ ?Q"
    by simp
  then show ?thesis by simp
qed

lemma fmtEndpoint_inj:
  assumes e': "e' = e\<lparr>Path := p, Method := m, Authorization := a\<rparr>"
    and sp: "CHR '' '' \<notin> set p" "CHR '' '' \<notin> set m"
      "CHR '' '' \<notin> set (Path e)" "CHR '' '' \<notin> set (Method e)"
    and eq: "fmtEndpoint e' = fmtEndpoint e"
  shows "p = Path e \<and> m = Method e \<and> a = Authorization e"
proof -
  let ?T = "'' '' @ fmtBool (EndpointConfig.ApiKeyRequired e) @ '' '' @
     fmtMap fmtBool (RequestParameters e) @ '' '' @ fmtMap id (RequestModels e) @ ''}''"
  let ?R = "\<lambda>auth. fmtPointer (LambdaFunc e) @ CHR '' '' # auth @ ?T"
  from eq have 1: "p @ CHR '' '' # (m @ CHR '' '' # ?R a) =
      Path e @ CHR '' '' # (Method e @ CHR '' '' # ?R (Authorization e))"
    by (simp add: fmtEndpoint_def e')
  from no_space_split [OF sp(1) sp(3) 1] have p: "p = Path e"
    and 2: "m @ CHR '' '' # ?R a = Method e @ CHR '' '' # ?R (Authorization e)"
    by blast+
  from no_space_split [OF sp(2) sp(4) 2] have m: "m = Method e"
    and 3: "?R a = ?R (Authorization e)"
    by blast+
  from 3 have "a = Authorization e"
    by simp
  with p m show ?thesis by simp
qed

lemma fmtEndpoints_changed:
  assumes i: "i < length es"
    and sp: "CHR '' '' \<notin> set p" "CHR '' '' \<notin> set m"
      "CHR '' '' \<notin> set (Path (es ! i))" "CHR '' '' \<notin> set (Method (es ! i))"
    and ch: "(p, m, a) \<noteq> (Path (es ! i), Method (es ! i), Authorization (es ! i))"
  shows "fmtEndpoints (es[i := (es ! i)\<lparr>Path := p, Method := m, Authorization := a\<rparr>]) \<noteq>
         fmtEndpoints es"
proof
  let ?e' = "(es ! i)\<lparr>Path := p, Method := m, Authorization := a\<rparr>"
  assume eq: "fmtEndpoints (es[i := ?e']) = fmtEndpoints es"
  have es: "es = take i es @ es ! i # drop (Suc i) es"
    using i by (simp add: id_take_nth_drop)
  have es': "es[i := ?e'] = take i es @ ?e' # drop (Suc i) es"
    using i by (simp add: upd_conv_take_nth_drop)
  from eq have "joinWith '' '' (map fmtEndpoint (es[i := ?e'])) =
      joinWith '' '' (map fmtEndpoint es)"
    by (simp add: fmtEndpoints_def)
  then have "joinWith '' '' (map fmtEndpoint (take i es) @ fmtEndpoint ?e' #
        map fmtEndpoint (drop (Suc i) es)) =
      joinWith '' '' (map fmtEndpoint (take i es) @ fmtEndpoint (es ! i) #
        map fmtEndpoint (drop (Suc i) es))"
    by (subst (asm) es', subst (asm) (3) es) simp
  then have "fmtEndpoint ?e' = fmtEndpoint (es ! i)"
    by (rule joinWith_inj_at)
  from fmtEndpoint_inj [OF refl sp this] ch show False
    by simp
qed

lemma spaceA_run:
  "redeploymentTrigger (NewAPIGateway ctxAll ''api'' cfgSpaceA []) =
     Some ''[{/a b c 0x1000 NONE false map[] map[]}]''"
  by (simp add: run_defs cfgSpaceA_def cfgOf_def ctxAll_def ep_def node_defs
      redeploymentTrigger_def fmtEndpoints_def fmtEndpoint_def fmtPointer_def fmtBool_def
      fmtMap_def hex.simps hexDigit_def numeral_2_eq_2 numeral_3_eq_3)

lemma spaceB_run:
  "redeploymentTrigger (NewAPIGateway ctxAll ''api'' cfgSpaceB []) =
     Some ''[{/a b c 0x1000 NONE false map[] map[]}]''"
  by (simp add: run_defs cfgSpaceB_def cfgOf_def ctxAll_def ep_def node_defs
      redeploymentTrigger_def fmtEndpoints_def fmtEndpoint_def fmtPointer_def fmtBool_def
      fmtMap_def hex.simps hexDigit_def numeral_2_eq_2 numeral_3_eq_3)

subsection \<open>succeeds\<close>

lemma succeeds_ret: "succeeds (ret a)"
  by (simp add: succeeds_def ret_def)

lemma succeeds_create: "(\<And>log. provider ctx log n) \<Longrightarrow> succeeds (create ctx n msg)"
  by (simp add: succeeds_def create_def)

lemma succeeds_andThen:
  assumes "succeeds m" and "\<And>a. succeeds (f a)"
  shows "succeeds (andThen m f)"
  unfolding succeeds_def
proof
  fix log
  from assms(1) obtain a log1 where "m log = (Inr a, log1)"
    unfolding succeeds_def by blast
  moreover from assms(2) [of a] obtain b log2 where "f a log1 = (Inr b, log2)"
    unfolding succeeds_def by blast
  ultimately show "\<exists>b log'. andThen m f log = (Inr b, log')"
    by (auto simp: andThen_Inr)
qed

lemma succeeds_case_prod:
  "(\<And>a b. succeeds (f a b)) \<Longrightarrow> succeeds (case x of (a, b) \<Rightarrow> f a b)"
  by (cases x) simp

lemma succeeds_buildPath:
  assumes "\<And>log n. provider ctx log n"
  shows "succeeds (buildPath ctx name component restAPI parts st)"
proof (induction parts arbitrary: st)
  case Nil
  show ?case by (simp add: succeeds_ret)
next
  case (Cons pathPart parts)
  obtain parentPath resource resources where st: "st = (parentPath, resource, resources)"
    by (cases st)
  show ?case
    unfolding st
    by (auto simp: Let_def Cons.IH assms intro!: succeeds_andThen succeeds_create
        split: option.splits)
qed

lemma succeeds_wireEndpoint:
  assumes "\<And>log n. provider ctx log n" and "LambdaFunc e \<noteq> None"
  shows "succeeds (wireEndpoint ctx name config component restAPI authorizer e resources)"
  unfolding wireEndpoint_def using assms(2)
  by (auto intro!: succeeds_andThen succeeds_create succeeds_buildPath succeeds_ret
      succeeds_case_prod assms(1))

lemma succeeds_wireEndpoints:
  assumes "\<And>log n. provider ctx log n" and "\<forall>e \<in> set es. LambdaFunc e \<noteq> None"
  shows "succeeds (wireEndpoints ctx name config component restAPI authorizer es resources)"
  using assms(2)
proof (induction es arbitrary: resources)
  case Nil
  show ?case by (simp add: succeeds_ret)
next
  case (Cons e es)
  then show ?case
    by (auto intro!: succeeds_andThen succeeds_wireEndpoint assms(1))
qed

lemma succeeds_createAuthorizer:
  assumes "\<And>log n. provider ctx log n"
  shows "succeeds (createAuthorizer ctx name config component restAPI)"
  unfolding createAuthorizer_def
  by (auto intro!: succeeds_andThen succeeds_create succeeds_ret assms split: option.splits)

lemma succeeds_createKeyAndPlan:
  assumes "\<And>log n. provider ctx log n"
    and "\<forall>up. ApiKeyRequired config \<and> UsagePlanLimit config = Some up \<longrightarrow>
           Quota up \<noteq> None \<and> Throttle up \<noteq> None"
  shows "succeeds (createKeyAndPlan ctx name config tags component restAPI stage)"
  unfolding createKeyAndPlan_def using assms(2)
  by (auto intro!: succeeds_andThen succeeds_create succeeds_ret assms(1)
      split: option.splits)

lemma succeeds_createCustomDomain:
  assumes "\<And>log n. provider ctx log n"
  shows "succeeds (createCustomDomain ctx name config tags component restAPI stage)"
  unfolding createCustomDomain_def
  by (auto intro!: succeeds_andThen succeeds_create succeeds_ret assms split: option.splits)

lemma succeeds_NewAPIGateway:
  assumes "\<And>log n. provider ctx log n"
    and "\<forall>e \<in> set (Endpoints config). LambdaFunc e \<noteq> None"
    and "\<forall>up. ApiKeyRequired config \<and> UsagePlanLimit config = Some up \<longrightarrow>
           Quota up \<noteq> None \<and> Throttle up \<noteq> None"
  shows "succeeds (NewAPIGateway ctx name config)"
  unfolding NewAPIGateway_def Let_def
  by (intro succeeds_andThen succeeds_create succeeds_ret succeeds_case_prod
      succeeds_createAuthorizer succeeds_wireEndpoints succeeds_createKeyAndPlan
      succeeds_createCustomDomain assms)

lemmas eval_defs =
  run_defs cfgOf_def ctxAll_def ep_def node_defs nkind_def treeView_def
  numeral_2_eq_2 numeral_3_eq_3

section \<open>Tag merging\<close>

text \<open>
  C9. Tag merging is a total function of the configuration in which the override entries
  win on every key: the merged tags are the defaults \<open>Environment\<close> and \<open>ManagedBy\<close>
  overwritten by the entries of \<open>Tags\<close>. Every entry of \<open>Tags\<close> is found in the result
  with its own value, also under the keys \<open>Environment\<close> and \<open>ManagedBy\<close>, and every other
  key has its default. The keys of a Go map are distinct.
\<close>

theorem mergeTags_overrides_win:
  assumes "distinct (map fst (Tags config))"
  shows "mergeTags config =
           [''Environment'' \<mapsto> Environment config, ''ManagedBy'' \<mapsto> ''Pulumi''] ++
           map_of (Tags config) \<and>
         (\<forall>(k, v) \<in> set (Tags config). mergeTags config k = Some v) \<and>
         (\<forall>k. k \<notin> fst ` set (Tags config) \<longrightarrow>
            mergeTags config k =
              [''Environment'' \<mapsto> Environment config, ''ManagedBy'' \<mapsto> ''Pulumi''] k)"
proof -
  have eq: "mergeTags config =
      [''Environment'' \<mapsto> Environment config, ''ManagedBy'' \<mapsto> ''Pulumi''] ++
      map_of (Tags config)"
    by (simp add: mergeTags_def fold_upd_map_add map_of_rev_distinct [OF assms])
  have "mergeTags config k = Some v" if "(k, v) \<in> set (Tags config)" for k v
    using assms that by (simp add: eq map_add_def)
  moreover have "mergeTags config k =
      [''Environment'' \<mapsto> Environment config, ''ManagedBy'' \<mapsto> ''Pulumi''] k"
    if "k \<notin> fst ` set (Tags config)" for k
    using that by (simp add: eq map_add_def map_of_eq_None_iff [THEN iffD2])
  ultimately show ?thesis
    using eq by blast
qed

theorem mergeTags_overrides_win_witness:
  "distinct (map fst (Tags cfgOverride)) \<and>
   Environment cfgOverride = ''x'' \<and>
   mergeTags cfgOverride ''Environment'' = Some ''z'' \<and>
   mergeTags cfgOverride ''ManagedBy'' = Some ''Pulumi'' \<and>
   mergeTags cfgOverride ''Team'' = None"
proof -
  have d: "distinct (map fst (Tags cfgOverride))"
    by (simp add: cfgOverride_def)
  from mergeTags_overrides_win [OF d] have
    "mergeTags cfgOverride =
       [''Environment'' \<mapsto> Environment cfgOverride, ''ManagedBy'' \<mapsto> ''Pulumi''] ++
       map_of (Tags cfgOverride)"
    by blast
  then show ?thesis
    by (simp add: cfgOverride_def cfgOf_def)
qed

text \<open>
  C10. Every declaration of one composition that carries tags (REST API, stage, API key,
  usage plan, custom domain), in a run that succeeds or fails, carries the merged tag map
  of the configuration; that map has the keys \<open>ManagedBy\<close> and \<open>Environment\<close>, and
  \<open>Environment\<close> is the configured environment unless \<open>Tags\<close> overrides it.
\<close>

theorem tags_identical_on_every_tagged_resource:
  assumes "n \<in> set (snd (NewAPIGateway ctx name config []))"
    and "tagsOf (nargs n) = Some t"
  shows "t = mergeTags config \<and>
         mergeTags config ''ManagedBy'' \<noteq> None \<and>
         mergeTags config ''Environment'' \<noteq> None \<and>
         (''Environment'' \<notin> fst ` set (Tags config) \<longrightarrow>
            mergeTags config ''Environment'' = Some (Environment config))"
proof -
  from emits_tags [of config ctx name] obtain new where
    "snd (NewAPIGateway ctx name config []) = [] @ new"
    "list_all (\<lambda>n. \<forall>t. tagsOf (nargs n) = Some t \<longrightarrow> t = mergeTags config) new"
    unfolding emits_def by blast
  with assms have 1: "t = mergeTags config"
    by (auto simp: list_all_iff)
  have 2: "mergeTags config =
      [''Environment'' \<mapsto> Environment config, ''ManagedBy'' \<mapsto> ''Pulumi''] ++
      map_of (rev (Tags config))"
    by (simp add: mergeTags_def fold_upd_map_add)
  have 3: "map_of (rev (Tags config)) ''Environment'' = None"
    if "''Environment'' \<notin> fst ` set (Tags config)"
    using that by (simp add: map_of_eq_None_iff)
  show ?thesis
    using 1 2 3 by (auto simp: map_add_def split: option.splits)
qed

theorem tags_identical_on_every_tagged_resource_witness:
  "usersLog ! 14 \<in> set (snd (NewAPIGateway ctxAll ''users-api'' cfgUsers [])) \<and>
   nkind (usersLog ! 14) = StageK \<and>
   tagsOf (nargs (usersLog ! 14)) = Some (mergeTags cfgUsers) \<and>
   mergeTags cfgUsers ''ManagedBy'' \<noteq> None \<and>
   mergeTags cfgUsers ''Environment'' = Some ''production''"
proof -
  have m: "usersLog ! 14 \<in> set (snd (NewAPIGateway ctxAll ''users-api'' cfgUsers []))"
    by (simp add: users_run) (simp add: usersLog_def Let_def)
  have t: "tagsOf (nargs (usersLog ! 14)) = Some (mergeTags cfgUsers)"
    by (simp add: usersLog_def Let_def stageNode_def)
  have k: "nkind (usersLog ! 14) = StageK"
    by (simp add: usersLog_def Let_def stageNode_def nkind_def)
  have e: "''Environment'' \<notin> fst ` set (Tags cfgUsers)" "Environment cfgUsers = ''production''"
    by (simp_all add: cfgUsers_def)
  from tags_identical_on_every_tagged_resource [OF m t] e m t k show ?thesis
    by simp
qed

section \<open>Deployment ordering and dependencies\<close>

text \<open>
  C5, as amended. In every run, a deployment declaration comes after every resource,
  method, integration and permission declaration. In a successful run the deployment is
  declared after the blocks of all endpoints, with the REST API id and the trigger as its
  only arguments: its direct dependencies are the parent component and the REST API, and
  it depends, directly or transitively, on the component and the REST API only, so on no
  method and on no integration declaration.
\<close>

theorem deployment_after_wiring_depends_on_rest_api_only:
  assumes "NewAPIGateway ctx name config [] = (r, log)"
  shows "(\<forall>i<length log. \<forall>j<length log.
            nkind (log ! i) = DeploymentK \<longrightarrow> wiringKind (nkind (log ! j)) \<longrightarrow> j < i) \<and>
         (\<forall>c. r = Inr c \<longrightarrow>
            Deployment c < length log \<and>
            nargs (log ! Deployment c) =
              DeploymentArgs (ID (RestAPI c))
                [(''redeployment'', fmtEndpoints (Endpoints config))] \<and>
            (\<exists>pre authorizer blocks.
               take (Deployment c) log = pre @ concat blocks \<and>
               list_all2 (endpointBlock ctx name config 0 (RestAPI c) authorizer)
                 (Endpoints config) blocks \<and>
               (\<forall>n \<in> set pre. \<not> wiringKind (nkind n))) \<and>
            directDeps (log ! Deployment c) = [0, RestAPI c] \<and>
            (\<forall>j. dependsOn log (Deployment c) j \<longrightarrow> j = 0 \<or> j = RestAPI c) \<and>
            (\<forall>j<length log. nkind (log ! j) = MethodK \<or> nkind (log ! j) = IntegrationK \<longrightarrow>
               j < Deployment c \<and> \<not> dependsOn log (Deployment c) j))"
proof (intro conjI allI impI)
  fix i j
  assume i: "i < length log" "nkind (log ! i) = DeploymentK"
    and j: "j < length log" "wiringKind (nkind (log ! j))"
  from emitsThen_NewAPIGateway [of ctx name config] assms obtain new1 new2 where
    log: "log = new1 @ new2"
    and new1: "list_all (\<lambda>n. nkind n \<noteq> DeploymentK) new1"
    and new2: "list_all (\<lambda>n. \<not> wiringKind (nkind n)) new2"
    unfolding emitsThen_def by (metis append_Nil snd_conv)
  have "\<not> i < length new1"
    using i new1 by (auto simp: log nth_append list_all_length)
  moreover have "j < length new1"
  proof (rule ccontr)
    assume "\<not> j < length new1"
    then have "log ! j = new2 ! (j - length new1)" "j - length new1 < length new2"
      using j(1) by (auto simp: log nth_append)
    with new2 j(2) show False
      by (auto simp: list_all_length)
  qed
  ultimately show "j < i" by simp
next
  fix c
  assume r: "r = Inr c"
  from NewAPIGateway_Inr [OF assms [unfolded r]] obtain auth authorizer blocks keys doms where
    log: "log = [componentNode name, restApiNode name config (mergeTags config) 0] @ auth @
            concat blocks @
            [deploymentNode name config 0 1,
             stageNode name config (mergeTags config) 0 1 (Deployment c)] @ keys @ doms"
    and auth: "list_all (\<lambda>n. nkind n = AuthorizerK) auth"
    and blocks: "list_all2 (endpointBlock ctx name config 0 1 authorizer) (Endpoints config) blocks"
    and c: "RestAPI c = 1" "Deployment c = 2 + length auth + length (concat blocks)"
    by blast
  let ?pre = "[componentNode name, restApiNode name config (mergeTags config) 0] @ auth"
  let ?post = "stageNode name config (mergeTags config) 0 1 (Deployment c) # keys @ doms"
  have log': "log = (?pre @ concat blocks) @ deploymentNode name config 0 1 # ?post"
    unfolding log by simp
  have len: "length (?pre @ concat blocks) = Deployment c"
    using c by simp
  show d_len: "Deployment c < length log"
    unfolding log' using c by simp
  have d: "log ! Deployment c = deploymentNode name config 0 1"
    unfolding len [symmetric] log' by (rule nth_append_length)
  show "nargs (log ! Deployment c) =
      DeploymentArgs (ID (RestAPI c)) [(''redeployment'', fmtEndpoints (Endpoints config))]"
    unfolding d by (simp add: c(1) deploymentNode_def)
  have "take (length (?pre @ concat blocks)) log = ?pre @ concat blocks"
    by (subst log') simp
  then have tk: "take (Deployment c) log = ?pre @ concat blocks"
    unfolding len .
  have pre: "\<forall>n \<in> set ?pre. \<not> wiringKind (nkind n)"
    using auth by (auto simp: nkind_simps wiringKind_def list_all_iff)
  from tk blocks pre
  show "\<exists>pre authorizer blocks.
               take (Deployment c) log = pre @ concat blocks \<and>
               list_all2 (endpointBlock ctx name config 0 (RestAPI c) authorizer)
                 (Endpoints config) blocks \<and>
               (\<forall>n \<in> set pre. \<not> wiringKind (nkind n))"
    unfolding c(1) by blast
  show dd: "directDeps (log ! Deployment c) = [0, RestAPI c]"
    unfolding d by (simp add: c(1) directDeps_simps)
  have n0: "log ! 0 = componentNode name"
    unfolding log by simp
  have n1: "log ! Suc 0 = restApiNode name config (mergeTags config) 0"
    unfolding log by simp
  have closed: "j = 0 \<or> j = RestAPI c" if "dependsOn log (Deployment c) j" for j
  proof -
    have "j \<in> {0, 1}"
      using that
    proof (rule dependsOn_closed)
      fix y assume "y \<in> set (directDeps (log ! Deployment c))"
      then show "y \<in> {0, 1}" unfolding dd by (simp add: c(1))
    next
      fix x y assume "x \<in> {0, 1 :: nat}" "y \<in> set (directDeps (log ! x))"
      then show "y \<in> {0, 1}"
        by (auto simp: n0 n1 directDeps_simps)
    qed
    then show ?thesis by (simp add: c(1))
  qed
  then show "dependsOn log (Deployment c) j \<Longrightarrow> j = 0 \<or> j = RestAPI c" for j .
  fix j
  assume j: "j < length log" "nkind (log ! j) = MethodK \<or> nkind (log ! j) = IntegrationK"
  define headPart where "headPart = ?pre @ concat blocks"
  define tailPart where "tailPart = deploymentNode name config 0 1 # ?post"
  have cut: "log = headPart @ tailPart" and headPart: "length headPart = Deployment c"
    using log' len by (simp_all add: headPart_def tailPart_def)
  have tailPart: "list_all (\<lambda>n. \<not> wiringKind (nkind n)) tailPart"
  proof -
    from emitsThen_NewAPIGateway [of ctx name config] assms obtain new1 new2 where
      l: "log = new1 @ new2"
      and new1: "list_all (\<lambda>n. nkind n \<noteq> DeploymentK) new1"
      and new2: "list_all (\<lambda>n. \<not> wiringKind (nkind n)) new2"
      unfolding emitsThen_def by (metis append_Nil snd_conv)
    have "\<not> Deployment c < length new1"
      using new1 d d_len by (auto simp: l nth_append list_all_length nkind_simps)
    then have "drop (Deployment c) log = drop (Deployment c - length new1) new2"
      by (simp add: l)
    moreover have "drop (Deployment c) log = tailPart"
      unfolding headPart [symmetric] cut by simp
    ultimately have "set tailPart \<subseteq> set new2"
      by (metis set_drop_subset)
    with new2 show ?thesis
      by (auto simp: list_all_iff)
  qed
  show "j < Deployment c"
  proof (rule ccontr)
    assume "\<not> j < Deployment c"
    then have "log ! j = tailPart ! (j - length headPart)" "j - length headPart < length tailPart"
      using j(1) unfolding headPart [symmetric] cut by (simp_all add: nth_append)
    with tailPart have "\<not> wiringKind (nkind (log ! j))"
      by (simp add: list_all_length)
    with j(2) show False
      by (auto simp: wiringKind_def)
  qed
  show "\<not> dependsOn log (Deployment c) j"
  proof
    assume "dependsOn log (Deployment c) j"
    from closed [OF this] have "j = 0 \<or> j = 1"
      by (simp add: c(1))
    with j(2) show False
      by (auto simp: n0 n1 nkind_simps)
  qed
qed

theorem deployment_after_wiring_depends_on_rest_api_only_witness:
  "NewAPIGateway ctxAll ''users-api'' cfgUsers [] = (Inr usersAPI, usersLog) \<and>
   Deployment usersAPI = 13 \<and>
   nkind (usersLog ! 13) = DeploymentK \<and>
   nkind (usersLog ! 3) = MethodK \<and> (3 :: nat) < 13 \<and>
   directDeps (usersLog ! 13) = [0, 1] \<and>
   \<not> dependsOn usersLog 13 3"
proof -
  have k: "nkind (usersLog ! 3) = MethodK" "nkind (usersLog ! 13) = DeploymentK"
    "(3 :: nat) < length usersLog" "13 < length usersLog"
    by (simp_all add: usersLog_def Let_def nkind_simps numeral_3_eq_3)
  have c: "Deployment usersAPI = 13" "RestAPI usersAPI = 1"
    by (simp_all add: usersAPI_def)
  from deployment_after_wiring_depends_on_rest_api_only [OF users_run]
  have "directDeps (usersLog ! Deployment usersAPI) = [0, RestAPI usersAPI]"
    and "\<forall>j<length usersLog. nkind (usersLog ! j) = MethodK \<or> nkind (usersLog ! j) = IntegrationK \<longrightarrow>
               j < Deployment usersAPI \<and> \<not> dependsOn usersLog (Deployment usersAPI) j"
    by blast+
  then show ?thesis
    using k c users_run by auto
qed

text \<open>
  C5 as stated fails: with one endpoint the deployment is declaration 6, the endpoint's
  method and integration are declarations 3 and 4, and the deployment depends on neither.
\<close>

theorem deployment_depends_on_methods_counterexample:
  "NewAPIGateway ctxAll ''api'' cfgOne [] = (Inr oneAPI, oneLog) \<and>
   Deployment oneAPI = 6 \<and>
   nkind (oneLog ! 3) = MethodK \<and> nkind (oneLog ! 4) = IntegrationK \<and>
   \<not> dependsOn oneLog 6 3 \<and> \<not> dependsOn oneLog 6 4"
proof -
  have d6: "directDeps (oneLog ! 6) = [0, 1]"
    and d0: "directDeps (oneLog ! 0) = []"
    and d1: "directDeps (oneLog ! Suc 0) = [0]"
    by (simp_all add: oneLog_def Let_def directDeps_simps)
  have closed: "j \<in> {0, 1}" if "dependsOn oneLog 6 j" for j
    using that
  proof (rule dependsOn_closed)
    fix y assume "y \<in> set (directDeps (oneLog ! 6))"
    then show "y \<in> {0, 1}" by (simp add: d6)
  next
    fix x y assume "x \<in> {0, 1 :: nat}" "y \<in> set (directDeps (oneLog ! x))"
    then show "y \<in> {0, 1}" by (auto simp: d0 d1)
  qed
  have "\<not> dependsOn oneLog 6 3" "\<not> dependsOn oneLog 6 4"
    using closed by fastforce+
  moreover have "nkind (oneLog ! 3) = MethodK" "nkind (oneLog ! 4) = IntegrationK"
    by (simp_all add: oneLog_def Let_def nkind_simps numeral_3_eq_3)
  moreover have "Deployment oneAPI = 6"
    by (simp add: oneAPI_def)
  ultimately show ?thesis
    using one_run by simp
qed

section \<open>API key and usage plan\<close>

text \<open>
  C6. If the composition-level \<open>ApiKeyRequired\<close> flag or the usage plan is absent, no
  API key, usage plan or usage plan key is declared, in any run. In a successful run with
  both present, exactly one key, one usage plan and one usage plan key are declared, in
  this order and after the stage; the plan is bound to the REST API and the stage's name,
  with the configured quota limit and period and throttle burst and rate, and the usage
  plan key binds the key to the plan.
\<close>

theorem key_and_plan_iff_flag_and_usage_plan:
  assumes "NewAPIGateway ctx name config [] = (r, log)"
  shows "(\<not> (ApiKeyRequired config \<and> UsagePlanLimit config \<noteq> None) \<longrightarrow>
            (\<forall>n \<in> set log. \<not> keyPlanKind (nkind n))) \<and>
         (\<forall>c. r = Inr c \<longrightarrow>
            (if ApiKeyRequired config \<and> UsagePlanLimit config \<noteq> None then
               \<exists>up q t k p.
                 UsagePlanLimit config = Some up \<and> Quota up = Some q \<and> Throttle up = Some t \<and>
                 APIKey c = Some k \<and> UsagePlan c = Some p \<and>
                 map nargs (filter (\<lambda>n. keyPlanKind (nkind n)) log) =
                   [ApiKeyArgs (name @ ''-key'') (mergeTags config),
                    UsagePlanArgs (name @ ''-usage-plan'')
                      [(ID (RestAPI c), StageNameOf (Stage c))]
                      (Limit q, Period q) (BurstLimit t, RateLimit t) (mergeTags config),
                    UsagePlanKeyArgs (ID k) ''API_KEY'' (ID p)] \<and>
                 Stage c < k \<and> k < p \<and> p < length log \<and>
                 nkind (log ! Stage c) = StageK \<and>
                 nkind (log ! k) = ApiKeyK \<and>
                 nkind (log ! p) = UsagePlanK
             else APIKey c = None \<and> UsagePlan c = None))"
proof (intro conjI impI allI)
  assume absent: "\<not> (ApiKeyRequired config \<and> UsagePlanLimit config \<noteq> None)"
  from emitsD [OF emits_no_key_plan [OF absent] assms]
  show "\<forall>n \<in> set log. \<not> keyPlanKind (nkind n)"
    by (auto simp: list_all_iff)
next
  fix c
  assume r: "r = Inr c"
  from NewAPIGateway_Inr [OF assms [unfolded r]] obtain auth authorizer blocks keys doms where
    log: "log = [componentNode name, restApiNode name config (mergeTags config) 0] @ auth @
            concat blocks @
            [deploymentNode name config 0 1,
             stageNode name config (mergeTags config) 0 1 (Deployment c)] @ keys @ doms"
    and auth: "list_all (\<lambda>n. nkind n = AuthorizerK) auth"
    and blocks: "list_all2 (endpointBlock ctx name config 0 1 authorizer) (Endpoints config) blocks"
    and c: "RestAPI c = 1" "Deployment c = 2 + length auth + length (concat blocks)"
      "Stage c = Suc (Deployment c)"
    and keys: "if ApiKeyRequired config \<and> UsagePlanLimit config \<noteq> None then
         \<exists>up q t. UsagePlanLimit config = Some up \<and> Quota up = Some q \<and> Throttle up = Some t \<and>
           APIKey c = Some (Stage c + 1) \<and> UsagePlan c = Some (Stage c + 2) \<and>
           keys =
             [apiKeyNode name (mergeTags config) 0,
              usagePlanNode name (mergeTags config) 0 1 (Stage c) q t,
              usagePlanKeyNode name 0 (Stage c + 1) (Stage c + 2)]
       else APIKey c = None \<and> UsagePlan c = None \<and> keys = []"
    and doms: "list_all (\<lambda>n. nkind n = DomainNameK \<or> nkind n = BasePathMappingK) doms"
    by blast
  show "if ApiKeyRequired config \<and> UsagePlanLimit config \<noteq> None then
               \<exists>up q t k p.
                 UsagePlanLimit config = Some up \<and> Quota up = Some q \<and> Throttle up = Some t \<and>
                 APIKey c = Some k \<and> UsagePlan c = Some p \<and>
                 map nargs (filter (\<lambda>n. keyPlanKind (nkind n)) log) =
                   [ApiKeyArgs (name @ ''-key'') (mergeTags config),
                    UsagePlanArgs (name @ ''-usage-plan'')
                      [(ID (RestAPI c), StageNameOf (Stage c))]
                      (Limit q, Period q) (BurstLimit t, RateLimit t) (mergeTags config),
                    UsagePlanKeyArgs (ID k) ''API_KEY'' (ID p)] \<and>
                 Stage c < k \<and> k < p \<and> p < length log \<and>
                 nkind (log ! Stage c) = StageK \<and>
                 nkind (log ! k) = ApiKeyK \<and>
                 nkind (log ! p) = UsagePlanK
             else APIKey c = None \<and> UsagePlan c = None"
  proof (cases "ApiKeyRequired config \<and> UsagePlanLimit config \<noteq> None")
    case False
    with keys show ?thesis by auto
  next
    case True
    with keys obtain up q t where
      up: "UsagePlanLimit config = Some up" "Quota up = Some q" "Throttle up = Some t"
      and kp: "APIKey c = Some (Stage c + 1)" "UsagePlan c = Some (Stage c + 2)"
      and keys_eq: "keys =
             [apiKeyNode name (mergeTags config) 0,
              usagePlanNode name (mergeTags config) 0 1 (Stage c) q t,
              usagePlanKeyNode name 0 (Stage c + 1) (Stage c + 2)]"
      by auto
    have f_auth: "filter (\<lambda>n. keyPlanKind (nkind n)) auth = []"
      using auth by (rule filter_none) (simp add: keyPlanKind_def)
    have f_blocks: "filter (\<lambda>n. keyPlanKind (nkind n)) (concat blocks) = []"
      using blocks_kinds [OF blocks]
      by (rule filter_none) (auto simp: keyPlanKind_def wiringKind_def)
    have f_doms: "filter (\<lambda>n. keyPlanKind (nkind n)) doms = []"
      using doms by (rule filter_none) (auto simp: keyPlanKind_def)
    have kinds: "keyPlanKind ApiKeyK" "keyPlanKind UsagePlanK" "keyPlanKind UsagePlanKeyK"
      "\<not> keyPlanKind ComponentK" "\<not> keyPlanKind RestApiK" "\<not> keyPlanKind DeploymentK"
      "\<not> keyPlanKind StageK"
      by (simp_all add: keyPlanKind_def)
    have f: "filter (\<lambda>n. keyPlanKind (nkind n)) log = keys"
      unfolding log by (simp add: f_auth f_blocks f_doms nkind_simps kinds keys_eq)
    let ?pre = "[componentNode name, restApiNode name config (mergeTags config) 0] @ auth @
            concat blocks"
    have len: "length ?pre = Deployment c"
      using c by simp
    have log': "log = ?pre @ [deploymentNode name config 0 1,
             stageNode name config (mergeTags config) 0 1 (Deployment c),
             apiKeyNode name (mergeTags config) 0,
              usagePlanNode name (mergeTags config) 0 1 (Stage c) q t,
              usagePlanKeyNode name 0 (Stage c + 1) (Stage c + 2)] @ doms"
      unfolding log keys_eq by simp
    have nth: "log ! (Deployment c + i) = ([deploymentNode name config 0 1,
             stageNode name config (mergeTags config) 0 1 (Deployment c),
             apiKeyNode name (mergeTags config) 0,
              usagePlanNode name (mergeTags config) 0 1 (Stage c) q t,
              usagePlanKeyNode name 0 (Stage c + 1) (Stage c + 2)] @ doms) ! i" for i
      by (subst log', subst len [symmetric], rule nth_append_length_plus)
    have n1: "log ! Stage c = stageNode name config (mergeTags config) 0 1 (Deployment c)"
      using nth [of 1] c by simp
    have n2: "log ! (Stage c + 1) = apiKeyNode name (mergeTags config) 0"
      using nth [of 2] c by simp
    have n3: "log ! (Stage c + 2) = usagePlanNode name (mergeTags config) 0 1 (Stage c) q t"
      using nth [of 3] c by (simp add: numeral_3_eq_3)
    have p_len: "Stage c + 2 < length log"
      unfolding log' using c by simp
    show ?thesis
      using True up kp f n1 n2 n3 p_len c(1)
      by (simp add: keys_eq nkind_simps) (simp add: node_defs)
  qed
qed

theorem key_and_plan_iff_flag_and_usage_plan_witness:
  "APIGatewayConfig.ApiKeyRequired cfgUsers \<and> UsagePlanLimit cfgUsers \<noteq> None \<and>
   APIKey usersAPI = Some 15 \<and> UsagePlan usersAPI = Some 16 \<and> Stage usersAPI = 14 \<and>
   map nargs (filter (\<lambda>n. keyPlanKind (nkind n)) usersLog) =
     [ApiKeyArgs ''users-api-key'' (mergeTags cfgUsers),
      UsagePlanArgs ''users-api-usage-plan'' [(ID 1, StageNameOf 14)] (1000, ''DAY'')
        (10, Float64 0x4014000000000000) (mergeTags cfgUsers),
      UsagePlanKeyArgs (ID 15) ''API_KEY'' (ID 16)] \<and>
   \<not> APIGatewayConfig.ApiKeyRequired cfgOne \<and>
   filter (\<lambda>n. keyPlanKind (nkind n)) oneLog = []"
proof -
  have both: "APIGatewayConfig.ApiKeyRequired cfgUsers \<and> UsagePlanLimit cfgUsers \<noteq> None"
    by (simp add: cfgUsers_def)
  have c: "APIKey usersAPI = Some 15" "UsagePlan usersAPI = Some 16" "Stage usersAPI = 14"
    "RestAPI usersAPI = 1"
    by (simp_all add: usersAPI_def)
  from key_and_plan_iff_flag_and_usage_plan [OF users_run] both
  have "\<exists>up q t k p.
      UsagePlanLimit cfgUsers = Some up \<and> Quota up = Some q \<and> Throttle up = Some t \<and>
      APIKey usersAPI = Some k \<and> UsagePlan usersAPI = Some p \<and>
      map nargs (filter (\<lambda>n. keyPlanKind (nkind n)) usersLog) =
        [ApiKeyArgs (''users-api'' @ ''-key'') (mergeTags cfgUsers),
         UsagePlanArgs (''users-api'' @ ''-usage-plan'')
           [(ID (RestAPI usersAPI), StageNameOf (Stage usersAPI))]
           (Limit q, Period q) (BurstLimit t, RateLimit t) (mergeTags cfgUsers),
         UsagePlanKeyArgs (ID k) ''API_KEY'' (ID p)]"
    by auto
  then have 1: "map nargs (filter (\<lambda>n. keyPlanKind (nkind n)) usersLog) =
     [ApiKeyArgs ''users-api-key'' (mergeTags cfgUsers),
      UsagePlanArgs ''users-api-usage-plan'' [(ID 1, StageNameOf 14)] (1000, ''DAY'')
        (10, Float64 0x4014000000000000) (mergeTags cfgUsers),
      UsagePlanKeyArgs (ID 15) ''API_KEY'' (ID 16)]"
    unfolding c by (auto simp: cfgUsers_def)
  have absent: "\<not> APIGatewayConfig.ApiKeyRequired cfgOne"
    by (simp add: cfgOne_def cfgOf_def)
  from key_and_plan_iff_flag_and_usage_plan [OF one_run] absent
  have "\<forall>n \<in> set oneLog. \<not> keyPlanKind (nkind n)"
    by blast
  then have 2: "filter (\<lambda>n. keyPlanKind (nkind n)) oneLog = []"
    by (simp add: filter_empty_conv)
  show ?thesis
    using both c 1 absent 2 by simp
qed

section \<open>CORS\<close>

text \<open>
  C8. In a successful composition with CORS enabled, the declarations are a prefix, one
  block per endpoint in the order of the configuration, and a suffix; the prefix and the
  suffix hold no method and no integration. The block of an endpoint ends with the
  endpoint's method, its proxy integration, its permission, one \<open>OPTIONS\<close> method with
  authorization \<open>NONE\<close> and no API key, and one \<open>MOCK\<close> integration with the fixed
  status template, all on the same leaf: one pair per endpoint, also when endpoints share
  a leaf.
\<close>

theorem cors_pair_per_endpoint:
  assumes "NewAPIGateway ctx name config [] = (Inr c, log)"
    and "EnableCORS config"
  shows "\<exists>pre blocks post.
           log = pre @ concat blocks @ post \<and>
           list_all2 (corsBlock (RestAPI c)) (Endpoints config) blocks \<and>
           (\<forall>n \<in> set (pre @ post). nkind n \<noteq> MethodK \<and> nkind n \<noteq> IntegrationK)"
proof -
  from NewAPIGateway_Inr [OF assms(1)] obtain auth authorizer blocks keys doms where
    log: "log = [componentNode name, restApiNode name config (mergeTags config) 0] @ auth @
            concat blocks @
            [deploymentNode name config 0 1,
             stageNode name config (mergeTags config) 0 1 (Deployment c)] @ keys @ doms"
    and auth: "list_all (\<lambda>n. nkind n = AuthorizerK) auth"
    and blocks: "list_all2 (endpointBlock ctx name config 0 1 authorizer) (Endpoints config) blocks"
    and c: "RestAPI c = 1"
    and keys: "if ApiKeyRequired config \<and> UsagePlanLimit config \<noteq> None then
         \<exists>up q t. UsagePlanLimit config = Some up \<and> Quota up = Some q \<and> Throttle up = Some t \<and>
           APIKey c = Some (Stage c + 1) \<and> UsagePlan c = Some (Stage c + 2) \<and>
           keys =
             [apiKeyNode name (mergeTags config) 0,
              usagePlanNode name (mergeTags config) 0 1 (Stage c) q t,
              usagePlanKeyNode name 0 (Stage c + 1) (Stage c + 2)]
       else APIKey c = None \<and> UsagePlan c = None \<and> keys = []"
    and doms: "list_all (\<lambda>n. nkind n = DomainNameK \<or> nkind n = BasePathMappingK) doms"
    by blast
  let ?pre = "[componentNode name, restApiNode name config (mergeTags config) 0] @ auth"
  let ?post = "[deploymentNode name config 0 1,
             stageNode name config (mergeTags config) 0 1 (Deployment c)] @ keys @ doms"
  have "list_all (\<lambda>n. keyPlanKind (nkind n)) keys"
    using keys by (auto simp: nkind_simps keyPlanKind_def split: if_splits)
  then have "\<forall>n \<in> set (?pre @ ?post). nkind n \<noteq> MethodK \<and> nkind n \<noteq> IntegrationK"
    using auth doms by (auto simp: nkind_simps list_all_iff keyPlanKind_def)
  moreover have "list_all2 (corsBlock (RestAPI c)) (Endpoints config) blocks"
    using blocks unfolding c
    by (rule list_all2_mono) (rule endpointBlock_cors [OF _ assms(2)])
  moreover have "log = ?pre @ concat blocks @ ?post"
    unfolding log by simp
  ultimately show ?thesis by blast
qed

theorem cors_pair_per_endpoint_witness:
  "EnableCORS cfgUsers \<and> length (Endpoints cfgUsers) = 2 \<and>
   (\<exists>pre blocks post.
      usersLog = pre @ concat blocks @ post \<and>
      list_all2 (corsBlock 1) (Endpoints cfgUsers) blocks \<and>
      (\<forall>n \<in> set (pre @ post). nkind n \<noteq> MethodK \<and> nkind n \<noteq> IntegrationK)) \<and>
   map nargs (filter (\<lambda>n. nkind n = MethodK) usersLog) =
     [MethodArgs (ID 1) (ID 2) ''GET'' ''NONE'' False None None,
      MethodArgs (ID 1) (ID 2) ''OPTIONS'' ''NONE'' False None None,
      MethodArgs (ID 1) (ID 2) ''POST'' ''NONE'' True None
        (Some [''method.request.header.Content-Type'' \<mapsto> True]),
      MethodArgs (ID 1) (ID 2) ''OPTIONS'' ''NONE'' False None None]"
proof -
  have cors: "EnableCORS cfgUsers" and n: "length (Endpoints cfgUsers) = 2"
    by (simp_all add: cfgUsers_def)
  have c: "RestAPI usersAPI = 1"
    by (simp add: usersAPI_def)
  have m: "map nargs (filter (\<lambda>n. nkind n = MethodK) usersLog) =
     [MethodArgs (ID 1) (ID 2) ''GET'' ''NONE'' False None None,
      MethodArgs (ID 1) (ID 2) ''OPTIONS'' ''NONE'' False None None,
      MethodArgs (ID 1) (ID 2) ''POST'' ''NONE'' True None
        (Some [''method.request.header.Content-Type'' \<mapsto> True]),
      MethodArgs (ID 1) (ID 2) ''OPTIONS'' ''NONE'' False None None]"
    by (simp add: usersLog_def Let_def nkind_simps) (simp add: node_defs cfgUsers_def ep_def)
  from cors_pair_per_endpoint [OF users_run cors] cors n m show ?thesis
    unfolding c by simp
qed

section \<open>The deployment trigger\<close>

text \<open>
  C3, as amended. In a successful composition the \<open>redeployment\<close> trigger is the printed
  endpoint list and nothing else: two runs whose endpoint lists are equal (the handler
  pointers included, which are printed as addresses) have the same trigger, whatever the
  context, the name and the rest of the configuration. When the second run's endpoint list
  is the first's with the path, method or authorization of one endpoint changed, the
  triggers differ, provided that neither the old nor the new path and method contain a
  space.
\<close>

theorem trigger_is_function_of_endpoints:
  assumes "NewAPIGateway ctx name config [] = (Inr c, log)"
    and "NewAPIGateway ctx' name' config' [] = (Inr c', log')"
  shows "redeploymentTrigger (Inr c, log) = Some (fmtEndpoints (Endpoints config)) \<and>
         (Endpoints config' = Endpoints config \<longrightarrow>
            redeploymentTrigger (Inr c', log') = redeploymentTrigger (Inr c, log)) \<and>
         (\<forall>i p m a.
            i < length (Endpoints config) \<and>
            Endpoints config' =
              (Endpoints config)
                [i := (Endpoints config ! i)\<lparr>Path := p, Method := m, Authorization := a\<rparr>] \<and>
            (p, m, a) \<noteq>
              (Path (Endpoints config ! i), Method (Endpoints config ! i),
               Authorization (Endpoints config ! i)) \<and>
            CHR '' '' \<notin> set p \<and> CHR '' '' \<notin> set m \<and>
            CHR '' '' \<notin> set (Path (Endpoints config ! i)) \<and>
            CHR '' '' \<notin> set (Method (Endpoints config ! i)) \<longrightarrow>
            redeploymentTrigger (Inr c', log') \<noteq> redeploymentTrigger (Inr c, log))"
proof -
  have t: "redeploymentTrigger (Inr c, log) = Some (fmtEndpoints (Endpoints config))"
    and t': "redeploymentTrigger (Inr c', log') = Some (fmtEndpoints (Endpoints config'))"
    using assms by (simp_all add: redeploymentTrigger_Inr)
  have "redeploymentTrigger (Inr c', log') \<noteq> redeploymentTrigger (Inr c, log)"
    if "i < length (Endpoints config)"
      and "Endpoints config' =
        (Endpoints config)
          [i := (Endpoints config ! i)\<lparr>Path := p, Method := m, Authorization := a\<rparr>]"
      and "(p, m, a) \<noteq>
        (Path (Endpoints config ! i), Method (Endpoints config ! i),
         Authorization (Endpoints config ! i))"
      and "CHR '' '' \<notin> set p" "CHR '' '' \<notin> set m"
        "CHR '' '' \<notin> set (Path (Endpoints config ! i))"
        "CHR '' '' \<notin> set (Method (Endpoints config ! i))"
    for i p m a
    unfolding t t' that(2)
    using fmtEndpoints_changed [OF that(1) that(4-7) that(3)] by simp
  then show ?thesis
    using t t' by auto
qed

theorem trigger_is_function_of_endpoints_witness:
  "fst (NewAPIGateway ctxAll ''api'' cfgOne []) = Inr oneAPI \<and>
   fst (NewAPIGateway ctxAll ''other'' cfgUsersPut []) = Inr oneAPI \<and>
   Endpoints cfgUsersPut = (Endpoints cfgOne)[0 := (Endpoints cfgOne ! 0)\<lparr>Method := ''PUT''\<rparr>] \<and>
   redeploymentTrigger (NewAPIGateway ctxAll ''api'' cfgOne []) =
     Some (fmtEndpoints (Endpoints cfgOne)) \<and>
   redeploymentTrigger (NewAPIGateway ctxAll ''other'' cfgUsersPut []) \<noteq>
     redeploymentTrigger (NewAPIGateway ctxAll ''api'' cfgOne [])"
proof -
  obtain log' where put: "NewAPIGateway ctxAll ''other'' cfgUsersPut [] = (Inr oneAPI, log')"
    by (simp add: run_defs cfgUsersPut_def cfgOne_def cfgOf_def ctxAll_def ep_def oneAPI_def
        numeral_2_eq_2 numeral_3_eq_3 resourceNode_def)
  have es: "Endpoints cfgUsersPut =
      (Endpoints cfgOne)[0 := (Endpoints cfgOne ! 0)
        \<lparr>Path := ''/users'', Method := ''PUT'', Authorization := ''NONE''\<rparr>]"
    by (simp add: cfgUsersPut_def cfgOne_def cfgOf_def ep_def)
  have hyp: "0 < length (Endpoints cfgOne) \<and>
      Endpoints cfgUsersPut =
        (Endpoints cfgOne)[0 := (Endpoints cfgOne ! 0)
          \<lparr>Path := ''/users'', Method := ''PUT'', Authorization := ''NONE''\<rparr>] \<and>
      (''/users'', ''PUT'', ''NONE'') \<noteq>
        (Path (Endpoints cfgOne ! 0), Method (Endpoints cfgOne ! 0),
         Authorization (Endpoints cfgOne ! 0)) \<and>
      CHR '' '' \<notin> set ''/users'' \<and> CHR '' '' \<notin> set ''PUT'' \<and>
      CHR '' '' \<notin> set (Path (Endpoints cfgOne ! 0)) \<and>
      CHR '' '' \<notin> set (Method (Endpoints cfgOne ! 0))"
    using es by (simp add: cfgOne_def cfgOf_def ep_def)
  from trigger_is_function_of_endpoints [OF one_run put] hyp
  have "redeploymentTrigger (Inr oneAPI, oneLog) = Some (fmtEndpoints (Endpoints cfgOne))"
    and "redeploymentTrigger (Inr oneAPI, log') \<noteq> redeploymentTrigger (Inr oneAPI, oneLog)"
    by blast+
  moreover have "Endpoints cfgUsersPut =
      (Endpoints cfgOne)[0 := (Endpoints cfgOne ! 0)\<lparr>Method := ''PUT''\<rparr>]"
    by (simp add: cfgUsersPut_def cfgOne_def cfgOf_def ep_def)
  ultimately show ?thesis
    by (simp add: one_run put)
qed

text \<open>
  C3 as stated fails: changing an endpoint's path from \<open>/a b\<close> to \<open>/a\<close> and its method
  from \<open>c\<close> to \<open>b c\<close> leaves the trigger as it was.
\<close>

theorem trigger_changes_with_endpoint_counterexample:
  "Endpoints cfgSpaceB =
     (Endpoints cfgSpaceA)[0 := (Endpoints cfgSpaceA ! 0)\<lparr>Path := ''/a'', Method := ''b c''\<rparr>] \<and>
   Path (Endpoints cfgSpaceA ! 0) = ''/a b'' \<and> Method (Endpoints cfgSpaceA ! 0) = ''c'' \<and>
   redeploymentTrigger (NewAPIGateway ctxAll ''api'' cfgSpaceA []) =
     Some ''[{/a b c 0x1000 NONE false map[] map[]}]'' \<and>
   redeploymentTrigger (NewAPIGateway ctxAll ''api'' cfgSpaceB []) =
     redeploymentTrigger (NewAPIGateway ctxAll ''api'' cfgSpaceA [])"
  using spaceA_run spaceB_run
  by (simp add: cfgSpaceA_def cfgSpaceB_def cfgOf_def ep_def)

section \<open>Configuration errors\<close>

text \<open>
  C4, as amended. The composition checks nothing about the shape of the configuration:
  when the engine accepts every declaration and no nil handler, quota or throttle pointer
  is read, it succeeds for every configuration, having declared the component and the
  REST API first; with \<open>ApiKeyRequired\<close> set and no usage plan it succeeds too and declares
  no key and no plan.
\<close>

theorem composition_has_no_shape_check:
  assumes "\<forall>log n. provider ctx log n"
    and "\<forall>e \<in> set (Endpoints config). LambdaFunc e \<noteq> None"
    and "\<forall>up. ApiKeyRequired config \<and> UsagePlanLimit config = Some up \<longrightarrow>
           Quota up \<noteq> None \<and> Throttle up \<noteq> None"
  shows "\<exists>c log.
           NewAPIGateway ctx name config [] = (Inr c, log) \<and>
           take 2 log = [componentNode name, restApiNode name config (mergeTags config) 0] \<and>
           (ApiKeyRequired config \<and> UsagePlanLimit config = None \<longrightarrow>
              APIKey c = None \<and> UsagePlan c = None \<and>
              (\<forall>n \<in> set log. \<not> keyPlanKind (nkind n)))"
proof -
  from succeeds_NewAPIGateway [of ctx config name] assms obtain c log where
    run: "NewAPIGateway ctx name config [] = (Inr c, log)"
    unfolding succeeds_def by blast
  from NewAPIGateway_Inr [OF run] obtain auth authorizer blocks keys doms where
    log: "log = [componentNode name, restApiNode name config (mergeTags config) 0] @ auth @
            concat blocks @
            [deploymentNode name config 0 1,
             stageNode name config (mergeTags config) 0 1 (Deployment c)] @ keys @ doms"
    and keys: "if ApiKeyRequired config \<and> UsagePlanLimit config \<noteq> None then
         \<exists>up q t. UsagePlanLimit config = Some up \<and> Quota up = Some q \<and> Throttle up = Some t \<and>
           APIKey c = Some (Stage c + 1) \<and> UsagePlan c = Some (Stage c + 2) \<and>
           keys =
             [apiKeyNode name (mergeTags config) 0,
              usagePlanNode name (mergeTags config) 0 1 (Stage c) q t,
              usagePlanKeyNode name 0 (Stage c + 1) (Stage c + 2)]
       else APIKey c = None \<and> UsagePlan c = None \<and> keys = []"
    by blast
  have "take 2 log = [componentNode name, restApiNode name config (mergeTags config) 0]"
    unfolding log by simp
  moreover have "APIKey c = None \<and> UsagePlan c = None \<and>
      (\<forall>n \<in> set log. \<not> keyPlanKind (nkind n))"
    if "ApiKeyRequired config \<and> UsagePlanLimit config = None"
  proof -
    from that have absent: "\<not> (ApiKeyRequired config \<and> UsagePlanLimit config \<noteq> None)"
      by simp
    from emitsD [OF emits_no_key_plan [OF absent] run]
    have "\<forall>n \<in> set log. \<not> keyPlanKind (nkind n)"
      by (auto simp: list_all_iff)
    with keys absent show ?thesis by simp
  qed
  ultimately show ?thesis
    using run by blast
qed

theorem composition_has_no_shape_check_witness:
  "(\<forall>log n. provider ctxAll log n) \<and>
   map LambdaFunc (Endpoints cfgUsers) = [Some 4096, Some 8192] \<and>
   (\<exists>c log. NewAPIGateway ctxAll ''users-api'' cfgUsers [] = (Inr c, log) \<and>
      take 2 log =
        [componentNode ''users-api'', restApiNode ''users-api'' cfgUsers (mergeTags cfgUsers) 0]) \<and>
   (\<exists>c log. NewAPIGateway ctxAll ''api'' cfgKeyNoPlan [] = (Inr c, log) \<and>
      APIKey c = None \<and> UsagePlan c = None \<and> (\<forall>n \<in> set log. \<not> keyPlanKind (nkind n)))"
proof -
  have p: "\<forall>log n. provider ctxAll log n"
    by (simp add: ctxAll_def)
  have e: "\<forall>e \<in> set (Endpoints cfgUsers). LambdaFunc e \<noteq> None"
    by (simp add: cfgUsers_def ep_def)
  have u: "\<forall>up. APIGatewayConfig.ApiKeyRequired cfgUsers \<and> UsagePlanLimit cfgUsers = Some up \<longrightarrow>
      Quota up \<noteq> None \<and> Throttle up \<noteq> None"
    by (auto simp: cfgUsers_def)
  have h: "map LambdaFunc (Endpoints cfgUsers) = [Some 4096, Some 8192]"
    by (simp add: cfgUsers_def ep_def)
  have e': "\<forall>e \<in> set (Endpoints cfgKeyNoPlan). LambdaFunc e \<noteq> None"
    by (simp add: cfgKeyNoPlan_def cfgOf_def)
  have u': "\<forall>up. APIGatewayConfig.ApiKeyRequired cfgKeyNoPlan \<and>
      UsagePlanLimit cfgKeyNoPlan = Some up \<longrightarrow> Quota up \<noteq> None \<and> Throttle up \<noteq> None"
    and k: "APIGatewayConfig.ApiKeyRequired cfgKeyNoPlan \<and> UsagePlanLimit cfgKeyNoPlan = None"
    by (simp_all add: cfgKeyNoPlan_def cfgOf_def)
  from composition_has_no_shape_check [OF p e u, of "''users-api''"]
    composition_has_no_shape_check [OF p e' u', of "''api''"] k p h
  show ?thesis
    by blast
qed

text \<open>
  C4 as stated fails: \<open>ApiKeyRequired\<close> without a usage plan is accepted, and four
  resources are declared; a duplicate (path, method) pair is noticed only when the engine
  refuses the second method's name, as a creation failure after six declarations.
\<close>

theorem shape_error_rejected_first_counterexample:
  "APIGatewayConfig.ApiKeyRequired cfgKeyNoPlan \<and> UsagePlanLimit cfgKeyNoPlan = None \<and>
   NewAPIGateway ctxAll ''api'' cfgKeyNoPlan [] =
     (Inr \<lparr>RestAPI = 1, Deployment = 2, Stage = 3, APIKey = None, UsagePlan = None,
           CustomDomain = None,
           BaseURL = Sprintf ''https://%s.execute-api.%s.amazonaws.com/%s''
                       [Out (ID 1), Str ''us-east-1'', Out (StageNameOf 3)],
           CustomDomainURL = None\<rparr>,
      [componentNode ''api'',
       restApiNode ''api'' cfgKeyNoPlan (mergeTags cfgKeyNoPlan) 0,
       deploymentNode ''api'' cfgKeyNoPlan 0 1,
       stageNode ''api'' cfgKeyNoPlan (mergeTags cfgKeyNoPlan) 0 1 2]) \<and>
   fst (NewAPIGateway ctxUnique ''api'' cfgDuplicate []) = Inl (Failed ''failed to create method'') \<and>
   map nkind (snd (NewAPIGateway ctxUnique ''api'' cfgDuplicate [])) =
     [ComponentK, RestApiK, ResourceK, MethodK, IntegrationK, PermissionK]"
proof -
  have 1: "APIGatewayConfig.ApiKeyRequired cfgKeyNoPlan \<and> UsagePlanLimit cfgKeyNoPlan = None"
    by (simp add: cfgKeyNoPlan_def cfgOf_def)
  have 2: "NewAPIGateway ctxAll ''api'' cfgKeyNoPlan [] =
     (Inr \<lparr>RestAPI = 1, Deployment = 2, Stage = 3, APIKey = None, UsagePlan = None,
           CustomDomain = None,
           BaseURL = Sprintf ''https://%s.execute-api.%s.amazonaws.com/%s''
                       [Out (ID 1), Str ''us-east-1'', Out (StageNameOf 3)],
           CustomDomainURL = None\<rparr>,
      [componentNode ''api'',
       restApiNode ''api'' cfgKeyNoPlan (mergeTags cfgKeyNoPlan) 0,
       deploymentNode ''api'' cfgKeyNoPlan 0 1,
       stageNode ''api'' cfgKeyNoPlan (mergeTags cfgKeyNoPlan) 0 1 2])"
    by (simp add: run_defs ctxAll_def cfgKeyNoPlan_def cfgOf_def node_defs
        numeral_2_eq_2 numeral_3_eq_3)
  have 3: "NewAPIGateway ctxUnique ''api'' cfgDuplicate [] =
     (Inl (Failed ''failed to create method''),
      [componentNode ''api'',
       restApiNode ''api'' cfgDuplicate (mergeTags cfgDuplicate) 0,
       resourceNode ''api'' 0 1 (RootResourceId 1) ''/users'',
       methodNode ''api'' 0 1 None (ep ''/users'' ''GET'') (ID 2),
       integrationNode ''api'' 0 1 (ep ''/users'' ''GET'') (ID 2) 3 4096,
       permissionNode ctxUnique ''api'' 0 1 (ep ''/users'' ''GET'') 4096])"
    by (simp add: run_defs cfgDuplicate_def cfgOf_def ctxUnique_def ep_def node_defs nkind_def
        numeral_2_eq_2 numeral_3_eq_3)
  show ?thesis
    using 1 2 by (simp add: 3 nkind_simps)
qed

section \<open>The path tree\<close>

text \<open>
  C1 at the endpoints \<open>/users/{id}\<close> and \<open>/users/{id}/profile\<close>: two resource nodes are
  declared, each with the whole path as its part and the root as its parent, and each
  method hangs on its own node. There is no node for \<open>users\<close> and the second leaf is not
  below the first.
\<close>

theorem shared_prefix_nodes_not_shared:
  "treeView (snd (NewAPIGateway ctxAll ''api'' cfgPrefix [])) =
     [ResourceArgs (ID 1) (RootResourceId 1) ''/users/{id}'',
      MethodArgs (ID 1) (ID 2) ''GET'' ''NONE'' False None None,
      ResourceArgs (ID 1) (RootResourceId 1) ''/users/{id}/profile'',
      MethodArgs (ID 1) (ID 6) ''GET'' ''NONE'' False None None]"
  by (simp add: eval_defs cfgPrefix_def)

text \<open>
  C2 at the paths \<open>/a/b/\<close>, \<open>/a/b\<close> and \<open>//a//b\<close>: three resource nodes, and the three
  methods hang on three different leaves.
\<close>

theorem slash_variants_get_distinct_leaves:
  "treeView (snd (NewAPIGateway ctxAll ''api'' cfgSlashes [])) =
     [ResourceArgs (ID 1) (RootResourceId 1) ''/a/b/'',
      MethodArgs (ID 1) (ID 2) ''GET'' ''NONE'' False None None,
      ResourceArgs (ID 1) (RootResourceId 1) ''/a/b'',
      MethodArgs (ID 1) (ID 6) ''GET'' ''NONE'' False None None,
      ResourceArgs (ID 1) (RootResourceId 1) ''//a//b'',
      MethodArgs (ID 1) (ID 10) ''GET'' ''NONE'' False None None]"
  by (simp add: eval_defs cfgSlashes_def)

text \<open>
  C7 at the paths \<open>/\<close> and the empty path: the path \<open>/\<close> declares a resource node with
  the part \<open>/\<close> and the method hangs on it; only the empty path leaves the method on the
  root resource.
\<close>

theorem slash_path_creates_child_node:
  "treeView (snd (NewAPIGateway ctxAll ''api'' cfgRoot [])) =
     [ResourceArgs (ID 1) (RootResourceId 1) ''/'',
      MethodArgs (ID 1) (ID 2) ''GET'' ''NONE'' False None None] \<and>
   treeView (snd (NewAPIGateway ctxAll ''api'' cfgEmptyPath [])) =
     [MethodArgs (ID 1) (RootResourceId 1) ''GET'' ''NONE'' False None None]"
  by (simp add: eval_defs cfgRoot_def cfgEmptyPath_def)

end
